theory Spec2Isabelle
  imports Main
begin

section \<open>Python and gRPC values shared by the handlers\<close>

text \<open>
  The exceptions the modelled code can raise, and the gRPC status codes it sets.
  A handler that calls \<^verbatim>\<open>context.abort(code, details)\<close> never returns: gRPC's
  abort raises, so the rest of the handler body is skipped.
\<close>

datatype py_exn =
    StopIteration
  | RuntimeError
  | UnboundLocalError
  | TypeError
  | ValueError
  | KeyError
  | IndexError
  | OtherError string

datatype status_code =
    OK
  | NOT_FOUND
  | ALREADY_EXISTS
  | FAILED_PRECONDITION
  | DATA_LOSS
  | PERMISSION_DENIED
  | INTERNAL

type_synonym bytes = "char list"

section \<open>The dataset adapter: \<^verbatim>\<open>hangar/dataset/torch_dset.py\<close>\<close>

text \<open>
  What \<^verbatim>\<open>index_get\<close> hands back and what \<^verbatim>\<open>__getitem__\<close> builds from it:
  an array (opaque, type \<open>'a\<close>), a tuple, a string, a plain dict or an
  \<^verbatim>\<open>OrderedDict\<close> (both as key/value lists in insertion order).
\<close>

datatype 'a py_obj =
    Array 'a
  | Str string
  | Tuple "'a py_obj list"
  | Dict "(string \<times> 'a py_obj) list"
  | OrderedDict "(string \<times> 'a py_obj) list"

text \<open>
  \<^verbatim>\<open>HangarDataset\<close> lives in \<^verbatim>\<open>dataset/common.py\<close>, which is not part of the
  sources at hand; the adapter only uses \<^verbatim>\<open>columns.keys()\<close>, \<^verbatim>\<open>index_get\<close> and
  \<^verbatim>\<open>len\<close>, so these three are the fields of the record. \<^verbatim>\<open>index_get\<close> may raise.
\<close>

record 'a HangarDataset =
  columns_keys :: "string list"
  index_get :: "int \<Rightarrow> py_exn + 'a py_obj"
  dataset_len :: nat

record 'a TorchDataset =
  dataset :: "'a HangarDataset"
  column_names :: "string list"
  as_dict :: bool

definition TorchDataset_init :: "'a HangarDataset \<Rightarrow> bool \<Rightarrow> 'a TorchDataset" where
  "TorchDataset_init hangar_dataset as_dict_arg =
     \<lparr> dataset = hangar_dataset,
       column_names = columns_keys hangar_dataset,
       as_dict = as_dict_arg \<rparr>"

definition TorchDataset_len :: "'a TorchDataset \<Rightarrow> nat" where
  "TorchDataset_len self = dataset_len (dataset self)"

text \<open>
  \<^verbatim>\<open>zip(self.column_names, data)\<close> iterates \<^verbatim>\<open>data\<close>. A tuple yields its
  components, a string its characters, a dict its keys; what iterating an array
  yields (its rows, or \<^verbatim>\<open>TypeError\<close> for a 0-d array) is numpy's business and is
  taken as the parameter \<open>array_iter\<close>.
\<close>

fun py_iter :: "('a \<Rightarrow> py_exn + 'a py_obj list) \<Rightarrow> 'a py_obj \<Rightarrow> py_exn + 'a py_obj list" where
  "py_iter array_iter (Array a) = array_iter a"
| "py_iter array_iter (Str s) = Inr (map (\<lambda>c. Str [c]) s)"
| "py_iter array_iter (Tuple xs) = Inr xs"
| "py_iter array_iter (Dict kvs) = Inr (map (\<lambda>kv. Str (fst kv)) kvs)"
| "py_iter array_iter (OrderedDict kvs) = Inr (map (\<lambda>kv. Str (fst kv)) kvs)"

text \<open>
  \<^verbatim>\<open>OrderedDict(pairs)\<close> inserts the pairs one by one: a key seen before keeps its
  position and takes the new value, a new key goes to the end.
\<close>

fun od_setitem :: "(string \<times> 'v) list \<Rightarrow> string \<Rightarrow> 'v \<Rightarrow> (string \<times> 'v) list" where
  "od_setitem [] k v = [(k, v)]"
| "od_setitem ((k', v') # rest) k v =
     (if k' = k then (k, v) # rest else (k', v') # od_setitem rest k v)"

definition od_of_pairs :: "(string \<times> 'v) list \<Rightarrow> (string \<times> 'v) list" where
  "od_of_pairs pairs = foldl (\<lambda>d kv. od_setitem d (fst kv) (snd kv)) [] pairs"

definition TorchDataset_getitem ::
  "('a \<Rightarrow> py_exn + 'a py_obj list) \<Rightarrow> 'a TorchDataset \<Rightarrow> int \<Rightarrow> py_exn + 'a py_obj" where
  "TorchDataset_getitem array_iter self index =
     (case index_get (dataset self) index of
        Inl e \<Rightarrow> Inl e
      | Inr data \<Rightarrow>
          if \<not> as_dict self then Inr data
          else if length (column_names self) = 1
            then Inr (Dict [(column_names self ! 0, data)])
          else (case py_iter array_iter data of
                  Inl e \<Rightarrow> Inl e
                | Inr comps \<Rightarrow> Inr (OrderedDict (od_of_pairs (zip (column_names self) comps)))))"

section \<open>The remote server: \<^verbatim>\<open>hangar/remote/server.py\<close>\<close>

subsection \<open>Handler results\<close>

text \<open>
  A unary or client-streaming handler either returns a reply (with the status code the
  servicer context holds at that moment: \<open>OK\<close> unless \<^verbatim>\<open>context.set_code\<close> was
  called), aborts the call with a status code, or lets a Python exception escape.
\<close>

datatype 'r rpc_result =
    Returned status_code 'r
  | Aborted status_code
  | Raised py_exn

text \<open>
  A server-streaming handler is a Python generator: it yields frames and then ends.
  \<open>ending\<close> is \<open>None\<close> when the generator is exhausted normally and \<open>Some e\<close>
  when exception \<open>e\<close> leaves it; \<open>status\<close> is the code held by the context.
\<close>

record 'f stream =
  frames :: "'f list"
  ending :: "py_exn option"
  status :: status_code

text \<open>
  What the caller of a generator sees when its body executes \<^verbatim>\<open>raise e\<close>.
  Before PEP 479 a \<^verbatim>\<open>StopIteration\<close> raised in the body ended the iteration like
  a \<^verbatim>\<open>return\<close>; with PEP 479 (the default from CPython 3.7 on) the interpreter
  replaces it by \<^verbatim>\<open>RuntimeError\<close>. \<open>pep479\<close> says which interpreter runs the server.
\<close>

definition generator_raise :: "bool \<Rightarrow> py_exn \<Rightarrow> py_exn option" where
  "generator_raise pep479 e =
     (if e = StopIteration then (if pep479 then Some RuntimeError else None) else Some e)"

record ErrorProto =
  err_code :: nat
  err_message :: string

definition err_OK :: ErrorProto where
  "err_OK = \<lparr> err_code = 0, err_message = ''OK'' \<rparr>"

definition err_default :: ErrorProto where
  "err_default = \<lparr> err_code = 0, err_message = [] \<rparr>"

subsection \<open>Server state\<close>

text \<open>
  The LMDB environments the handlers touch, each an ordered key/value table.
  \<^verbatim>\<open>refenv\<close> holds three key families per commit (ref blob, parents, spec);
  \<^verbatim>\<open>hashenv\<close> holds the data-hash keys (digest to backend locator) and the
  schema-hash keys. \<open>is_cm\<close> is \<^verbatim>\<open>self.DW.is_cm\<close>, the flag of the data writer's
  open context.
\<close>

record server =
  commit_refs :: "(string \<times> bytes) list"
  commit_parents :: "(string \<times> bytes) list"
  commit_specs :: "(string \<times> bytes) list"
  branchenv :: "(string \<times> string) list"
  hash_data :: "(string \<times> string) list"
  hash_schema :: "(string \<times> bytes) list"
  is_cm :: bool

text \<open>\<^verbatim>\<open>txn.get(key, default=False)\<close> and \<^verbatim>\<open>txn.put(key, val)\<close> on one table.\<close>

definition txn_get :: "('k \<times> 'v) list \<Rightarrow> 'k \<Rightarrow> 'v option" where
  "txn_get db k = map_of db k"

fun txn_put :: "('k \<times> 'v) list \<Rightarrow> 'k \<Rightarrow> 'v \<Rightarrow> ('k \<times> 'v) list" where
  "txn_put [] k v = [(k, v)]"
| "txn_put ((k', v') # rest) k v =
     (if k' = k then (k, v) # rest else (k', v') # txn_put rest k v)"

text \<open>
  \<^verbatim>\<open>bytearray(n)\<close> followed by \<^verbatim>\<open>buf[offset: offset + size] = chunk\<close> for each
  request of the stream. Python clips both slice bounds to the length of the buffer and
  replaces the slice by the chunk, which is what \<open>take\<close> and \<open>drop\<close> do.
\<close>

definition bytearray :: "nat \<Rightarrow> bytes" where
  "bytearray n = replicate n (CHR 0x00)"

definition slice_assign :: "bytes \<Rightarrow> nat \<Rightarrow> bytes \<Rightarrow> bytes" where
  "slice_assign buf offset chunk = take offset buf @ chunk @ drop (offset + length chunk) buf"

fun assemble :: "bytes \<Rightarrow> nat \<Rightarrow> bytes list \<Rightarrow> bytes" where
  "assemble buf offset [] = buf"
| "assemble buf offset (chunk # rest) =
     assemble (slice_assign buf offset chunk) (offset + length chunk) rest"

text \<open>Python truthiness of a value that is either \<^verbatim>\<open>False\<close> or a string.\<close>

definition py_not :: "string option \<Rightarrow> bool" where
  "py_not v = (case v of None \<Rightarrow> True | Some str \<Rightarrow> str = [])"

text \<open>
  \<^verbatim>\<open>list(a.difference(b))\<close> for two sets built from lists. Python leaves the order
  of the resulting list open; the model keeps first occurrences in the order of \<open>a\<close>,
  and the theorems speak about the set of its elements only.
\<close>

definition set_difference :: "string list \<Rightarrow> string list \<Rightarrow> string list" where
  "set_difference a b = remdups (filter (\<lambda>x. x \<notin> set b) a)"

subsection \<open>Collaborators of the server that are not in the sources at hand\<close>

text \<open>
  The handlers call into modules of the repository that are not among the sources at
  hand: the branch helpers of \<^verbatim>\<open>records/heads.py\<close>, the content writer of
  \<^verbatim>\<open>remote/content.py\<close>, \<^verbatim>\<open>backend_decoder\<close> of \<^verbatim>\<open>backends/__init__.py\<close>
  (of whose result the handlers read the backend code only), \<^verbatim>\<open>summarize.list_history\<close>
  (of whose result they read \<^verbatim>\<open>'head'\<close> and \<^verbatim>\<open>'order'\<close>) and
  \<^verbatim>\<open>commiting.list_all_commits\<close>. The handlers take them as parameters, the fields of
  the record \<open>helpers\<close>; the branch helpers and the decoder may raise.
\<close>

record history =
  hist_head :: string
  hist_order :: "string list"

record helpers =
  get_branch_names :: "(string \<times> string) list \<Rightarrow> string list"
  get_branch_head_commit :: "(string \<times> string) list \<Rightarrow> string \<Rightarrow> py_exn + string"
  create_branch ::
    "(string \<times> string) list \<Rightarrow> string \<Rightarrow> string \<Rightarrow> py_exn + (string \<times> string) list"
  set_branch_head_commit ::
    "(string \<times> string) list \<Rightarrow> string \<Rightarrow> string \<Rightarrow> py_exn + (string \<times> string) list"
  CW_commit :: "server \<Rightarrow> string \<Rightarrow> bytes \<Rightarrow> bytes \<Rightarrow> bytes \<Rightarrow> string option \<times> server"
  CW_schema :: "server \<Rightarrow> string \<Rightarrow> bytes \<Rightarrow> string option \<times> server"
  backend_decoder :: "string \<Rightarrow> py_exn + string"
  list_history :: "server \<Rightarrow> string \<Rightarrow> py_exn + history"
  list_all_commits :: "server \<Rightarrow> string list"

text \<open>
  The definitions that follow, all named \<open>spec_...\<close>, are one instance of these
  helpers, written from the spec. The theorems about the handlers hold for every
  instance; the instance written here serves to run the handlers on concrete inputs.
\<close>

text \<open>
  Modelled from the spec: the branch helpers of \<^verbatim>\<open>records/heads.py\<close>. A branch is a
  named mutable pointer to a commit digest; \<^verbatim>\<open>get_branch_head_commit\<close> raises
  \<^verbatim>\<open>ValueError\<close> for a branch that does not exist (the handlers catch exactly this).
\<close>

definition spec_get_branch_names :: "(string \<times> string) list \<Rightarrow> string list" where
  "spec_get_branch_names benv = map fst benv"

definition spec_get_branch_head_commit :: "(string \<times> string) list \<Rightarrow> string \<Rightarrow> py_exn + string" where
  "spec_get_branch_head_commit benv branch_name =
     (case txn_get benv branch_name of None \<Rightarrow> Inl ValueError | Some head \<Rightarrow> Inr head)"

definition spec_create_branch ::
  "(string \<times> string) list \<Rightarrow> string \<Rightarrow> string \<Rightarrow> py_exn + (string \<times> string) list" where
  "spec_create_branch benv name base_commit = Inr (txn_put benv name base_commit)"

definition spec_set_branch_head_commit ::
  "(string \<times> string) list \<Rightarrow> string \<Rightarrow> string \<Rightarrow> py_exn + (string \<times> string) list" where
  "spec_set_branch_head_commit benv branch_name commit = Inr (txn_put benv branch_name commit)"

text \<open>
  Modelled from the spec: \<^verbatim>\<open>ContentWriter.commit\<close> and \<^verbatim>\<open>ContentWriter.schema\<close> of
  \<^verbatim>\<open>remote/content.py\<close>. The handlers' docstrings state the contract: a commit or
  schema whose digest is already recorded is not overwritten, and the writer then returns
  \<^verbatim>\<open>False\<close> (here \<open>None\<close>); otherwise the record is written and the digest returned.
\<close>

definition spec_CW_commit ::
  "server \<Rightarrow> string \<Rightarrow> bytes \<Rightarrow> bytes \<Rightarrow> bytes \<Rightarrow> string option \<times> server" where
  "spec_CW_commit s commit parentVal specVal refVal =
     (if txn_get (commit_refs s) commit \<noteq> None
        \<or> txn_get (commit_parents s) commit \<noteq> None
        \<or> txn_get (commit_specs s) commit \<noteq> None
      then (None, s)
      else (Some commit,
            s\<lparr> commit_refs := txn_put (commit_refs s) commit refVal,
               commit_parents := txn_put (commit_parents s) commit parentVal,
               commit_specs := txn_put (commit_specs s) commit specVal \<rparr>))"

definition spec_CW_schema :: "server \<Rightarrow> string \<Rightarrow> bytes \<Rightarrow> string option \<times> server" where
  "spec_CW_schema s schema_hash schemaVal =
     (if txn_get (hash_schema s) schema_hash \<noteq> None then (None, s)
      else (Some schema_hash,
            s\<lparr> hash_schema := txn_put (hash_schema s) schema_hash schemaVal \<rparr>))"

text \<open>
  Modelled from the spec: \<^verbatim>\<open>backend_decoder\<close> of \<^verbatim>\<open>backends/__init__.py\<close>. A locator
  is an opaque string prefixed by a two-character backend code; the handlers read only
  that code (\<^verbatim>\<open>spec.backend\<close>).
\<close>

definition spec_backend_decoder :: "string \<Rightarrow> py_exn + string" where
  "spec_backend_decoder hashVal = Inr (take 2 hashVal)"

text \<open>
  Modelled from the spec: \<^verbatim>\<open>commiting.list_all_commits\<close>, the digests of all commits
  recorded in \<^verbatim>\<open>refenv\<close>.
\<close>

definition spec_list_all_commits :: "server \<Rightarrow> string list" where
  "spec_list_all_commits s =
     remdups (map fst (commit_refs s) @ map fst (commit_parents s) @ map fst (commit_specs s))"

text \<open>
  Modelled from the spec: \<^verbatim>\<open>summarize.list_history\<close>, the commits reachable from the
  head of a branch through the recorded parents. \<open>ancestors\<close> walks the parent records
  starting from a work list, skipping digests already visited and digests the server has
  no record of. How a parent record's bytes encode the parent digests is the business of
  \<^verbatim>\<open>records/parsing.py\<close>; the decoder is the parameter \<open>parents_of\<close>. The handler only
  reads the keys \<^verbatim>\<open>'order'\<close> and \<^verbatim>\<open>'head'\<close> of the result, and only the set of
  \<^verbatim>\<open>'order'\<close>. A missing branch raises \<^verbatim>\<open>ValueError\<close>.
\<close>

function ancestors ::
  "(bytes \<Rightarrow> string list) \<Rightarrow> (string \<times> bytes) list \<Rightarrow> string list \<Rightarrow> string list \<Rightarrow> string list" where
  "ancestors parents_of tbl [] seen = seen"
| "ancestors parents_of tbl (c # todo) seen =
     (if c \<in> set seen then ancestors parents_of tbl todo seen
      else (case txn_get tbl c of
              None \<Rightarrow> ancestors parents_of tbl todo seen
            | Some pv \<Rightarrow> ancestors parents_of tbl (parents_of pv @ todo) (seen @ [c])))"
  by pat_completeness auto
termination
proof (relation "measures [\<lambda>(parents_of, tbl, todo, seen). card (fst ` set tbl - set seen),
                           \<lambda>(parents_of, tbl, todo, seen). length todo]")
  show "wf (measures [\<lambda>(parents_of, tbl, todo, seen). card (fst ` set tbl - set seen),
                      \<lambda>(parents_of, tbl, todo, seen). length todo])"
    by simp
next
  fix parents_of :: "bytes \<Rightarrow> string list" and tbl :: "(string \<times> bytes) list"
    and c :: string and todo seen :: "string list"
  assume "c \<in> set seen"
  then show "((parents_of, tbl, todo, seen), (parents_of, tbl, c # todo, seen))
      \<in> measures [\<lambda>(parents_of, tbl, todo, seen). card (fst ` set tbl - set seen),
                   \<lambda>(parents_of, tbl, todo, seen). length todo]"
    by simp
next
  fix parents_of :: "bytes \<Rightarrow> string list" and tbl :: "(string \<times> bytes) list"
    and c :: string and todo seen :: "string list"
  assume "c \<notin> set seen" "txn_get tbl c = None"
  then show "((parents_of, tbl, todo, seen), (parents_of, tbl, c # todo, seen))
      \<in> measures [\<lambda>(parents_of, tbl, todo, seen). card (fst ` set tbl - set seen),
                   \<lambda>(parents_of, tbl, todo, seen). length todo]"
    by simp
next
  fix parents_of :: "bytes \<Rightarrow> string list" and tbl :: "(string \<times> bytes) list"
    and c :: string and todo seen :: "string list" and pv :: bytes
  assume new: "c \<notin> set seen" and rec: "txn_get tbl c = Some pv"
  from rec have "c \<in> fst ` set tbl"
    by (auto simp: txn_get_def dest: map_of_SomeD intro: rev_image_eqI)
  with new have mem: "c \<in> fst ` set tbl - set seen" by simp
  have fin: "finite (fst ` set tbl - set seen)" by simp
  have eq: "fst ` set tbl - set (seen @ [c]) = (fst ` set tbl - set seen) - {c}"
    by auto
  have "card ((fst ` set tbl - set seen) - {c}) < card (fst ` set tbl - set seen)"
    by (rule card_Diff1_less[OF fin mem])
  then have "card (fst ` set tbl - set (seen @ [c])) < card (fst ` set tbl - set seen)"
    by (simp only: eq)
  then show "((parents_of, tbl, parents_of pv @ todo, seen @ [c]), (parents_of, tbl, c # todo, seen))
      \<in> measures [\<lambda>(parents_of, tbl, todo, seen). card (fst ` set tbl - set seen),
                   \<lambda>(parents_of, tbl, todo, seen). length todo]"
    by simp
qed

declare ancestors.simps [simp del]

definition spec_list_history :: "(bytes \<Rightarrow> string list) \<Rightarrow> server \<Rightarrow> string \<Rightarrow> py_exn + history" where
  "spec_list_history parents_of s branch_name =
     (case spec_get_branch_head_commit (branchenv s) branch_name of
        Inl e \<Rightarrow> Inl e
      | Inr head \<Rightarrow>
          Inr \<lparr> hist_head = head,
                hist_order = ancestors parents_of (commit_parents s) [head] [] \<rparr>)"

definition spec_helpers :: "(bytes \<Rightarrow> string list) \<Rightarrow> helpers" where
  "spec_helpers parents_of =
     \<lparr> get_branch_names = spec_get_branch_names,
       get_branch_head_commit = spec_get_branch_head_commit,
       create_branch = spec_create_branch,
       set_branch_head_commit = spec_set_branch_head_commit,
       CW_commit = spec_CW_commit,
       CW_schema = spec_CW_schema,
       backend_decoder = spec_backend_decoder,
       list_history = spec_list_history parents_of,
       list_all_commits = spec_list_all_commits \<rparr>"

subsection \<open>Messages of the wire protocol\<close>

text \<open>
  The protobuf messages the modelled handlers read and build, one record each, with the
  fields the handlers use. \<open>DataType\<close> and \<open>DataLocation\<close> are protobuf enums; the
  constructors \<open>DT_Other\<close> and \<open>OtherLocation\<close> stand for the enum numbers the
  server code does not name.
\<close>

datatype DataType = DT_NP_ARRAY | DT_STR | DT_BYTES | DT_Other nat

datatype DataLocation = REMOTE_SERVER | OtherLocation nat

record BranchRecord =
  br_name :: string
  br_commit :: string

record CommitRecord =
  cr_parent :: bytes
  cr_ref :: bytes
  cr_spec :: bytes

record PushBranchRecordReply =
  pbr_error :: ErrorProto

record FetchCommitReply =
  fc_commit :: string
  fc_total_byte_size :: nat
  fc_record :: CommitRecord
  fc_error :: ErrorProto

record PushCommitRequest =
  pc_commit :: string
  pc_total_byte_size :: nat
  pc_record :: CommitRecord

record PushCommitReply =
  pcr_error :: ErrorProto

record SchemaRecord =
  sr_digest :: string
  sr_blob :: bytes

record PushSchemaReply =
  psr_error :: ErrorProto

record DataOriginReply =
  dor_location :: DataLocation
  dor_data_type :: DataType
  dor_digest :: string
  dor_uri :: string
  dor_compression :: bool
  dor_compression_opts :: "(string \<times> string) list"

datatype origin_frame =
    FetchDataReply_frame ErrorProto
  | DataOriginReply_frame DataOriginReply

record PushFindDataOriginRequest =
  pfo_digest :: string
  pfo_data_type :: DataType
  pfo_compression_is_desired :: bool

record PushFindDataOriginReply =
  pfr_digest :: string
  pfr_location :: DataLocation
  pfr_uri :: string
  pfr_compression_expected :: bool
  pfr_compression_opts_expected :: "(string \<times> string) list"

record PushDataRequest =
  pd_uri :: string
  pd_data_type :: DataType
  pd_schema_hash :: string
  pd_nbytes :: nat
  pd_raw_data :: bytes

record PushDataReply =
  pdr_error :: ErrorProto

record FindMissingCommitsRequest =
  fmq_branch :: BranchRecord
  fmq_commits :: "string list"

record FindMissingCommitsReply =
  fmr_branch :: BranchRecord
  fmr_commits :: "string list"
  fmr_error :: ErrorProto

subsection \<open>Branch, commit and schema records\<close>

definition PushBranchRecord ::
  "helpers \<Rightarrow> server \<Rightarrow> BranchRecord \<Rightarrow> PushBranchRecordReply rpc_result \<times> server" where
  "PushBranchRecord hp s request_rec =
     (let branch_name = br_name request_rec;
          commit = br_commit request_rec;
          branch_names = get_branch_names hp (branchenv s)
      in if branch_name \<notin> set branch_names
         then (case create_branch hp (branchenv s) branch_name commit of
                 Inl e \<Rightarrow> (Raised e, s)
               | Inr benv' \<Rightarrow>
                   (Returned OK \<lparr> pbr_error = err_OK \<rparr>, s\<lparr> branchenv := benv' \<rparr>))
         else (case get_branch_head_commit hp (branchenv s) branch_name of
                 Inl e \<Rightarrow> (Raised e, s)
               | Inr current_head \<Rightarrow>
                   if current_head = commit
                   then (Aborted ALREADY_EXISTS, s)
                   else (case set_branch_head_commit hp (branchenv s) branch_name commit of
                           Inl e \<Rightarrow> (Raised e, s)
                         | Inr benv' \<Rightarrow>
                             (Returned OK \<lparr> pbr_error = err_OK \<rparr>,
                              s\<lparr> branchenv := benv' \<rparr>))))"

text \<open>
  \<^verbatim>\<open>FetchCommit\<close> is a generator. On a missing commit it sets the status, yields one
  reply carrying the error and executes \<^verbatim>\<open>raise StopIteration()\<close>. Otherwise it yields
  one reply per chunk of the ref blob (\<^verbatim>\<open>chunks.chunk_bytes\<close>, a parameter); assigning
  \<^verbatim>\<open>False\<close> to a bytes field of the protobuf record raises \<^verbatim>\<open>TypeError\<close>.
\<close>

definition FetchCommit ::
  "bool \<Rightarrow> (bytes \<Rightarrow> bytes list) \<Rightarrow> server \<Rightarrow> string \<Rightarrow> FetchCommitReply stream" where
  "FetchCommit pep479 chunk_bytes s commit =
     (let commitRefVal = txn_get (commit_refs s) commit;
          commitParentVal = txn_get (commit_parents s) commit;
          commitSpecVal = txn_get (commit_specs s) commit
      in case commitRefVal of
           None \<Rightarrow>
             (let msg = ''COMMIT: '' @ commit @ '' DOES NOT EXIST ON SERVER'';
                  err = \<lparr> err_code = 5, err_message = msg \<rparr>;
                  reply = \<lparr> fc_commit = commit, fc_total_byte_size = 0,
                            fc_record = \<lparr> cr_parent = [], cr_ref = [], cr_spec = [] \<rparr>,
                            fc_error = err \<rparr>
              in \<lparr> frames = [reply],
                   ending = generator_raise pep479 StopIteration,
                   status = NOT_FOUND \<rparr>)
         | Some refVal \<Rightarrow>
             (case (commitParentVal, commitSpecVal) of
                (Some parentVal, Some specVal) \<Rightarrow>
                  \<lparr> frames =
                      map (\<lambda>chunk.
                             \<lparr> fc_commit = commit, fc_total_byte_size = length refVal,
                               fc_record = \<lparr> cr_parent = parentVal, cr_ref = chunk,
                                             cr_spec = specVal \<rparr>,
                               fc_error = err_default \<rparr>)
                          (chunk_bytes refVal),
                    ending = None,
                    status = OK \<rparr>
              | _ \<Rightarrow> \<lparr> frames = [], ending = generator_raise pep479 TypeError, status = OK \<rparr>))"

text \<open>
  \<^verbatim>\<open>PushCommit\<close> reads the digest, spec and parents from the first request and
  assembles the ref blob from all of them. With an empty request stream the names
  \<^verbatim>\<open>commit\<close>, \<^verbatim>\<open>refBytes\<close> are never bound and the call to the content writer raises
  \<^verbatim>\<open>UnboundLocalError\<close>. After a fresh commit the handler calls
  \<^verbatim>\<open>commiting.move_process_data_to_store\<close>, which moves backend files on disk and
  touches none of the tables of the state.
\<close>

definition PushCommit_refBytes :: "PushCommitRequest list \<Rightarrow> bytes" where
  "PushCommit_refBytes request_iterator =
     (case request_iterator of
        [] \<Rightarrow> []
      | request # _ \<Rightarrow>
          assemble (bytearray (pc_total_byte_size request)) 0
            (map (\<lambda>r. cr_ref (pc_record r)) request_iterator))"

definition PushCommit ::
  "helpers \<Rightarrow> server \<Rightarrow> PushCommitRequest list \<Rightarrow> PushCommitReply rpc_result \<times> server" where
  "PushCommit hp s request_iterator =
     (case request_iterator of
        [] \<Rightarrow> (Raised UnboundLocalError, s)
      | request # _ \<Rightarrow>
          (let commit = pc_commit request;
               specVal = cr_spec (pc_record request);
               parentVal = cr_parent (pc_record request);
               refBytes = PushCommit_refBytes request_iterator;
               (digest, s') = CW_commit hp s commit parentVal specVal refBytes
           in if py_not digest
              then (Returned ALREADY_EXISTS
                      \<lparr> pcr_error = \<lparr> err_code = 6,
                                       err_message = ''COMMIT: '' @ commit @ '' ALREADY EXISTS'' \<rparr> \<rparr>,
                    s')
              else (Returned OK \<lparr> pcr_error = err_OK \<rparr>, s')))"

definition PushSchema ::
  "helpers \<Rightarrow> server \<Rightarrow> SchemaRecord \<Rightarrow> PushSchemaReply rpc_result \<times> server" where
  "PushSchema hp s request_rec =
     (let schema_hash = sr_digest request_rec;
          schema_val = sr_blob request_rec;
          (digest, s') = CW_schema hp s schema_hash schema_val
      in if py_not digest
         then (Returned ALREADY_EXISTS
                 \<lparr> psr_error = \<lparr> err_code = 6,
                                  err_message = ''SCHEMA: '' @ schema_hash
                                                  @ '' ALREADY EXISTS ON SERVER'' \<rparr> \<rparr>,
               s')
         else (Returned OK \<lparr> psr_error = err_OK \<rparr>, s'))"

subsection \<open>Data origin negotiation\<close>

text \<open>
  \<^verbatim>\<open>FetchFindDataOrigin\<close> first drains the request stream into the list of digests,
  then walks it inside a \<^verbatim>\<open>try ... finally\<close> that only releases the reader
  transaction. For a digest without a hash record it sets the status, yields one
  \<^verbatim>\<open>FetchDataReply\<close> with the error and executes \<^verbatim>\<open>raise StopIteration()\<close>; for a
  recorded digest it yields a \<^verbatim>\<open>DataOriginReply\<close> whose data type follows the
  backend code of the locator.
\<close>

definition compression_opts_fetch :: "(string \<times> string) list" where
  "compression_opts_fetch =
     txn_put (txn_put (txn_put [] ''id'' ''blosc'') ''cname'' ''blosclz'') ''clevel'' ''3''"

definition origin_data_type :: "string \<Rightarrow> py_exn + DataType" where
  "origin_data_type backend =
     (if backend \<in> set [''01'', ''00'', ''10''] then Inr DT_NP_ARRAY
      else if backend = ''30'' then Inr DT_STR
      else if backend = ''31'' then Inr DT_BYTES
      else Inl TypeError)"

fun FetchFindDataOrigin_loop ::
  "bool \<Rightarrow> helpers \<Rightarrow> server \<Rightarrow> string list \<Rightarrow> origin_frame stream" where
  "FetchFindDataOrigin_loop pep479 hp s [] = \<lparr> frames = [], ending = None, status = OK \<rparr>"
| "FetchFindDataOrigin_loop pep479 hp s (digest # digests) =
     (case txn_get (hash_data s) digest of
        None \<Rightarrow>
          (let msg = ''HASH DOES NOT EXIST: '' @ digest;
               err = \<lparr> err_code = 5, err_message = msg \<rparr>
           in \<lparr> frames = [FetchDataReply_frame err],
                ending = generator_raise pep479 StopIteration,
                status = NOT_FOUND \<rparr>)
      | Some hashVal \<Rightarrow>
          (case backend_decoder hp hashVal of
             Inl e \<Rightarrow> \<lparr> frames = [], ending = generator_raise pep479 e, status = OK \<rparr>
           | Inr spec_backend \<Rightarrow>
               (case origin_data_type spec_backend of
                  Inl e \<Rightarrow> \<lparr> frames = [], ending = generator_raise pep479 e, status = OK \<rparr>
                | Inr dtype \<Rightarrow>
                    (let response = \<lparr> dor_location = REMOTE_SERVER,
                                      dor_data_type = dtype,
                                      dor_digest = digest,
                                      dor_uri = digest,
                                      dor_compression = True,
                                      dor_compression_opts = compression_opts_fetch \<rparr>;
                         rest = FetchFindDataOrigin_loop pep479 hp s digests
                     in rest\<lparr> frames := DataOriginReply_frame response # frames rest \<rparr>))))"

definition FetchFindDataOrigin ::
  "bool \<Rightarrow> helpers \<Rightarrow> server \<Rightarrow> string list \<Rightarrow> origin_frame stream" where
  "FetchFindDataOrigin pep479 hp s request_digests =
     FetchFindDataOrigin_loop pep479 hp s request_digests"

text \<open>
  \<^verbatim>\<open>PushFindDataOrigin\<close> answers each request of the stream with the location the
  client must send to and the compression the server expects.
\<close>

definition CONFIG_SEND_LOCATION :: DataLocation where
  "CONFIG_SEND_LOCATION = REMOTE_SERVER"

definition push_compression_opts :: "DataType \<Rightarrow> py_exn + (string \<times> string) list" where
  "push_compression_opts data_type =
     (if data_type = DT_NP_ARRAY
        then Inr [(''id'', ''blosc''), (''cname'', ''blosclz''), (''clevel'', ''3'')]
      else if data_type = DT_STR
        then Inr [(''id'', ''blosc''), (''cname'', ''zstd''), (''clevel'', ''3'')]
      else if data_type = DT_BYTES
        then Inr [(''id'', ''blosc''), (''cname'', ''blosclz''), (''clevel'', ''3'')]
      else Inl TypeError)"

fun PushFindDataOrigin ::
  "bool \<Rightarrow> PushFindDataOriginRequest list \<Rightarrow> PushFindDataOriginReply stream" where
  "PushFindDataOrigin pep479 [] = \<lparr> frames = [], ending = None, status = OK \<rparr>"
| "PushFindDataOrigin pep479 (request # all_requests) =
     (case (if pfo_compression_is_desired request
            then (case push_compression_opts (pfo_data_type request) of
                    Inl e \<Rightarrow> Inl e
                  | Inr opts \<Rightarrow> Inr (True, opts))
            else Inr (False, [])) of
        Inl e \<Rightarrow> \<lparr> frames = [], ending = generator_raise pep479 e, status = OK \<rparr>
      | Inr (reply_compression_expected, reply_compression_opts_expected) \<Rightarrow>
          if CONFIG_SEND_LOCATION = REMOTE_SERVER
          then
            (let reply_uri = pfo_digest request;
                 reply = \<lparr> pfr_digest = pfo_digest request,
                           pfr_location = CONFIG_SEND_LOCATION,
                           pfr_uri = reply_uri,
                           pfr_compression_expected = reply_compression_expected,
                           pfr_compression_opts_expected = reply_compression_opts_expected \<rparr>;
                 rest = PushFindDataOrigin pep479 all_requests
             in rest\<lparr> frames := reply # frames rest \<rparr>)
          else \<lparr> frames = [], ending = generator_raise pep479 RuntimeError, status = OK \<rparr>)"

subsection \<open>Pushing data\<close>

text \<open>
  What \<^verbatim>\<open>PushData\<close> calls outside \<^verbatim>\<open>server.py\<close>, as parameters: the blosc
  decompressor, \<^verbatim>\<open>chunks.deserialize_data\<close>, the hash function selected by
  \<^verbatim>\<open>hash_func_from_tcode(str(dtype_code))\<close> and the data writer's \<^verbatim>\<open>DW.data\<close>.
  Each may raise; \<^verbatim>\<open>DW.data\<close> works on the server state. \<open>'d\<close> is the type of a
  deserialised payload.
\<close>

record 'd externals =
  blosc_decompress :: "bytes \<Rightarrow> py_exn + bytes"
  deserialize_data :: "DataType \<Rightarrow> bytes \<Rightarrow> py_exn + 'd"
  hash_func_from_tcode :: "DataType \<Rightarrow> py_exn + ('d \<Rightarrow> py_exn + string)"
  DW_data :: "server \<Rightarrow> string \<Rightarrow> string \<Rightarrow> 'd \<Rightarrow> (py_exn + string) \<times> server"

definition PushData_dBytes :: "PushDataRequest list \<Rightarrow> bytes" where
  "PushData_dBytes request_iterator =
     (case request_iterator of
        [] \<Rightarrow> []
      | request # _ \<Rightarrow>
          assemble (bytearray (pd_nbytes request)) 0 (map pd_raw_data request_iterator))"

definition PushData ::
  "'d externals \<Rightarrow> server \<Rightarrow> PushDataRequest list \<Rightarrow> PushDataReply rpc_result \<times> server" where
  "PushData ext s request_iterator =
     (case request_iterator of
        [] \<Rightarrow> (Raised UnboundLocalError, s)
      | request # _ \<Rightarrow>
          if \<not> is_cm s then (Aborted FAILED_PRECONDITION, s)
          else
            (let uri = pd_uri request;
                 dtype_code = pd_data_type request;
                 schema_hash = pd_schema_hash request;
                 dBytes = PushData_dBytes request_iterator
             in case blosc_decompress ext dBytes of
                  Inl e \<Rightarrow> (Raised e, s)
                | Inr uncompBytes \<Rightarrow>
                    (case deserialize_data ext dtype_code uncompBytes of
                       Inl e \<Rightarrow> (Raised e, s)
                     | Inr recieved_data \<Rightarrow>
                         (case hash_func_from_tcode ext dtype_code of
                            Inl e \<Rightarrow> (Raised e, s)
                          | Inr hash_func \<Rightarrow>
                              (case hash_func recieved_data of
                                 Inl e \<Rightarrow> (Raised e, s)
                               | Inr recieved_hash \<Rightarrow>
                                   if recieved_hash \<noteq> uri then (Aborted DATA_LOSS, s)
                                   else
                                     (case DW_data ext s schema_hash recieved_hash recieved_data of
                                        (Inl e, s') \<Rightarrow> (Aborted INTERNAL, s')
                                      | (Inr saved_digest, s') \<Rightarrow>
                                          (Returned OK \<lparr> pdr_error = err_OK \<rparr>, s')))))))"

subsection \<open>Missing commits\<close>

definition FetchFindMissingCommits ::
  "helpers \<Rightarrow> server \<Rightarrow> FindMissingCommitsRequest \<Rightarrow> FindMissingCommitsReply rpc_result" where
  "FetchFindMissingCommits hp s request =
     (let c_branch_name = br_name (fmq_branch request);
          c_ordered_commits = fmq_commits request
      in case list_history hp s c_branch_name of
           Inl e \<Rightarrow>
             (if e = ValueError
              then Returned NOT_FOUND
                     \<lparr> fmr_branch = \<lparr> br_name = [], br_commit = [] \<rparr>,
                       fmr_commits = [],
                       fmr_error = \<lparr> err_code = 5,
                                      err_message = ''BRANCH NOT EXIST. Name: '' @ c_branch_name \<rparr> \<rparr>
              else Raised e)
         | Inr s_history \<Rightarrow>
             (let c_missing = set_difference (hist_order s_history) c_ordered_commits;
                  brch = \<lparr> br_name = c_branch_name, br_commit = hist_head s_history \<rparr>
              in Returned OK \<lparr> fmr_branch = brch, fmr_commits = c_missing, fmr_error = err_OK \<rparr>))"

definition PushFindMissingCommits ::
  "helpers \<Rightarrow> server \<Rightarrow> FindMissingCommitsRequest \<Rightarrow> FindMissingCommitsReply rpc_result" where
  "PushFindMissingCommits hp s request =
     (let c_branch_name = br_name (fmq_branch request);
          c_head_commit = br_commit (fmq_branch request);
          c_ordered_commits = fmq_commits request;
          s_commits = list_all_commits hp s;
          s_missing = set_difference c_ordered_commits s_commits;
          brch = \<lparr> br_name = c_branch_name, br_commit = c_head_commit \<rparr>
      in Returned OK \<lparr> fmr_branch = brch, fmr_commits = s_missing, fmr_error = err_OK \<rparr>)"

section \<open>The arrayset layer\<close>

text \<open>
  The arrayset code (\<^verbatim>\<open>hangar/arrayset.py\<close> and the checkout around it) is not among
  the sources at hand; only its tests are. This section models it from the spec.
\<close>

text \<open>
  Modelled from the spec: a sample key as Python hands it to \<^verbatim>\<open>aset[key] = value\<close>. A
  key is an integer, a string, a float (written as mantissa and binary exponent; no
  float is a valid key) or some other object.
\<close>

datatype py_key = KInt int | KStr string | KFloat int int | KOther

text \<open>
  Modelled from the spec: sample keys are either non-negative integers or strings of
  length 1 to 64 over \<^verbatim>\<open>[A-Za-z0-9_.-]\<close>.
\<close>

definition key_alphabet :: "char set" where
  "key_alphabet =
     set ''abcdefghijklmnopqrstuvwxyzABCDEFGHIJKLMNOPQRSTUVWXYZ0123456789_.-''"

definition is_valid_key :: "py_key \<Rightarrow> bool" where
  "is_valid_key k =
     (case k of
        KInt n \<Rightarrow> 0 \<le> n
      | KStr str \<Rightarrow> 1 \<le> length str \<and> length str \<le> 64 \<and> list_all (\<lambda>c. c \<in> key_alphabet) str
      | KFloat m e \<Rightarrow> False
      | KOther \<Rightarrow> False)"

text \<open>
  Modelled from the spec: a schema (element type, maximum per-axis extent whose length
  is the rank, the \<^verbatim>\<open>variable_shape\<close> flag, the default backend code) and an array
  value (dtype, shape, memory order, canonical bytes). A value that is not an array is
  \<open>NotArray\<close>.
\<close>

record schema =
  schema_dtype :: string
  schema_shape :: "nat list"
  variable_shape :: bool
  schema_backend :: string

record ndarray =
  arr_dtype :: string
  arr_shape :: "nat list"
  c_contiguous :: bool
  arr_bytes :: bytes

datatype py_value = NdArray ndarray | NotArray

text \<open>
  Modelled from the spec: \<^verbatim>\<open>set\<close> validates the value against the schema (dtype, rank,
  per-axis extent against the maximum); with \<^verbatim>\<open>variable_shape\<close> false every sample
  must match the schema shape exactly, with it true the rank must match and no dimension
  may exceed the schema maximum; column-major input is rejected. Every rejection is a
  \<^verbatim>\<open>ValueError\<close>.
\<close>

definition validate_value :: "schema \<Rightarrow> py_value \<Rightarrow> py_exn + ndarray" where
  "validate_value sch v =
     (case v of
        NotArray \<Rightarrow> Inl ValueError
      | NdArray arr \<Rightarrow>
          if arr_dtype arr \<noteq> schema_dtype sch then Inl ValueError
          else if \<not> c_contiguous arr then Inl ValueError
          else if variable_shape sch
            then (if length (arr_shape arr) \<noteq> length (schema_shape sch) then Inl ValueError
                  else if list_ex (\<lambda>dm. snd dm < fst dm) (zip (arr_shape arr) (schema_shape sch))
                    then Inl ValueError
                  else Inr arr)
          else if arr_shape arr \<noteq> schema_shape sch then Inl ValueError
          else Inr arr)"

text \<open>
  Modelled from the spec: the state a writer checkout holds for one arrayset: its
  schema, the ordered mapping of sample key to digest, the hash index (digest to
  locator) and the backend (of an arbitrary type \<open>'b\<close>: what it stores is its own
  business).
\<close>

record 'b arrayset =
  aset_schema :: schema
  samples :: "(py_key \<times> string) list"
  hashes :: "(string \<times> string) list"
  backend :: 'b

text \<open>
  Modelled from the spec: \<^verbatim>\<open>set(key, value)\<close> validates the key, validates the value
  against the schema, computes the digest, deduplicates via the hash index (the backend
  stores only fresh payloads and returns their locator), and records key to digest. A
  validation failure surfaces at once, before anything is changed. The digest function
  and the backend's \<^verbatim>\<open>write\<close> are parameters.
\<close>

definition aset_set ::
  "(ndarray \<Rightarrow> string) \<Rightarrow> ('b \<Rightarrow> schema \<Rightarrow> ndarray \<Rightarrow> string \<times> 'b)
     \<Rightarrow> 'b arrayset \<Rightarrow> py_key \<Rightarrow> py_value \<Rightarrow> (py_exn + string) \<times> 'b arrayset" where
  "aset_set digest_of be_write st key v =
     (if \<not> is_valid_key key then (Inl ValueError, st)
      else (case validate_value (aset_schema st) v of
              Inl e \<Rightarrow> (Inl e, st)
            | Inr arr \<Rightarrow>
                (let digest = digest_of arr;
                     st' = (if txn_get (hashes st) digest \<noteq> None then st
                            else (let (locator, be') = be_write (backend st) (aset_schema st) arr
                                  in st\<lparr> hashes := txn_put (hashes st) digest locator,
                                         backend := be' \<rparr>))
                 in (Inr digest, st'\<lparr> samples := txn_put (samples st') key digest \<rparr>))))"

definition aset_len :: "'b arrayset \<Rightarrow> nat" where
  "aset_len st = length (samples st)"

definition aset_keys :: "'b arrayset \<Rightarrow> py_key list" where
  "aset_keys st = map fst (samples st)"

text \<open>The number of hash-index entries recorded for one digest.\<close>

definition locator_entries :: "'b arrayset \<Rightarrow> string \<Rightarrow> nat" where
  "locator_entries st digest = length (filter (\<lambda>kv. fst kv = digest) (hashes st))"

text \<open>
  A state is well formed when no key occurs twice in the sample mapping or in the hash
  index, as in a key/value table.
\<close>

definition wf_arrayset :: "'b arrayset \<Rightarrow> bool" where
  "wf_arrayset st = (distinct (map fst (samples st)) \<and> distinct (map fst (hashes st)))"

section \<open>Notions used to state the properties\<close>

text \<open>
  The parent relation recorded on the server (commit \<open>c\<close> has a parent record that
  names \<open>p\<close>) and the recorded commits reachable from a head through it.
\<close>

definition parent_rel :: "(bytes \<Rightarrow> string list) \<Rightarrow> (string \<times> bytes) list \<Rightarrow> (string \<times> string) set" where
  "parent_rel parents_of tbl =
     {(c, p). \<exists>pv. txn_get tbl c = Some pv \<and> p \<in> set (parents_of pv)}"

definition reachable_commits ::
  "(bytes \<Rightarrow> string list) \<Rightarrow> (string \<times> bytes) list \<Rightarrow> string \<Rightarrow> string set" where
  "reachable_commits parents_of tbl head =
     {c. (head, c) \<in> (parent_rel parents_of tbl)\<^sup>* \<and> txn_get tbl c \<noteq> None}"

text \<open>The set of commits a find-missing reply carries (empty when the call did not return).\<close>

definition missing_commits :: "FindMissingCommitsReply rpc_result \<Rightarrow> string set" where
  "missing_commits r = (case r of Returned c reply \<Rightarrow> set (fmr_commits reply) | _ \<Rightarrow> {})"

text \<open>
  The blosc options with a given codec name at level 3, what it means for a frame of
  \<^verbatim>\<open>FetchFindDataOrigin\<close> to advertise them, and the reply \<^verbatim>\<open>PushFindDataOrigin\<close>
  gives to a request that desires compression: codec \<^verbatim>\<open>zstd\<close> for strings and
  \<^verbatim>\<open>blosclz\<close> otherwise.
\<close>

definition blosc_opts :: "string \<Rightarrow> (string \<times> string) list" where
  "blosc_opts cname = [(''id'', ''blosc''), (''cname'', cname), (''clevel'', ''3'')]"

definition advertises :: "string \<Rightarrow> origin_frame \<Rightarrow> bool" where
  "advertises cname f =
     (case f of
        DataOriginReply_frame r \<Rightarrow> dor_compression r \<and> dor_compression_opts r = blosc_opts cname
      | FetchDataReply_frame e \<Rightarrow> True)"

definition expected_push_reply :: "PushFindDataOriginRequest \<Rightarrow> PushFindDataOriginReply" where
  "expected_push_reply r =
     \<lparr> pfr_digest = pfo_digest r,
       pfr_location = REMOTE_SERVER,
       pfr_uri = pfo_digest r,
       pfr_compression_expected = True,
       pfr_compression_opts_expected =
         blosc_opts (if pfo_data_type r = DT_STR then ''zstd'' else ''blosclz'') \<rparr>"

section \<open>Concrete inputs used to exercise the theorems\<close>

text \<open>
  A toy instance of the external functions (identity codec, a hash that prefixes
  \<^verbatim>\<open>h\<close>, a data writer that records the digest under backend \<^verbatim>\<open>00\<close>), an empty
  server with the writer context closed or open, and a one-chunk push request.
\<close>

definition demo_ext :: "bytes externals" where
  "demo_ext =
     \<lparr> blosc_decompress = (\<lambda>b. Inr b),
       deserialize_data = (\<lambda>t b. Inr b),
       hash_func_from_tcode = (\<lambda>t. Inr (\<lambda>d. Inr (''h'' @ d))),
       DW_data = (\<lambda>s schema_hash digest d.
                    (Inr digest, s\<lparr> hash_data := txn_put (hash_data s) digest ''00'' \<rparr>)) \<rparr>"

definition demo_server :: "bool \<Rightarrow> server" where
  "demo_server cm =
     \<lparr> commit_refs = [], commit_parents = [], commit_specs = [], branchenv = [],
       hash_data = [], hash_schema = [], is_cm = cm \<rparr>"

definition demo_push :: "string \<Rightarrow> PushDataRequest" where
  "demo_push u =
     \<lparr> pd_uri = u, pd_data_type = DT_NP_ARRAY, pd_schema_hash = ''s1'',
       pd_nbytes = 2, pd_raw_data = ''ab'' \<rparr>"

text \<open>A dataset of one sample over the given columns.\<close>

definition demo_dataset :: "string list \<Rightarrow> nat py_obj \<Rightarrow> nat HangarDataset" where
  "demo_dataset names sample =
     \<lparr> columns_keys = names,
       index_get = (\<lambda>i. if i = 0 then Inr sample else Inl IndexError),
       dataset_len = 1 \<rparr>"

text \<open>
  A server that holds commit \<^verbatim>\<open>c1\<close>, schema \<^verbatim>\<open>s1\<close>, branch \<^verbatim>\<open>master\<close> at
  \<^verbatim>\<open>c1\<close>, a string payload \<^verbatim>\<open>d1\<close> (backend \<^verbatim>\<open>30\<close>) and an array payload
  \<^verbatim>\<open>d2\<close> (backend \<^verbatim>\<open>00\<close>); a push of that same commit; and two origin requests
  that desire compression.
\<close>

definition demo_repo :: server where
  "demo_repo =
     \<lparr> commit_refs = [(''c1'', ''refblob'')],
       commit_parents = [(''c1'', [])],
       commit_specs = [(''c1'', ''spec'')],
       branchenv = [(''master'', ''c1'')],
       hash_data = [(''d1'', ''30:strings''), (''d2'', ''00:arrays'')],
       hash_schema = [(''s1'', ''schemablob'')],
       is_cm = False \<rparr>"

definition demo_commit_request :: PushCommitRequest where
  "demo_commit_request =
     \<lparr> pc_commit = ''c1'', pc_total_byte_size = 7,
       pc_record = \<lparr> cr_parent = [], cr_ref = ''refblob'', cr_spec = ''spec'' \<rparr> \<rparr>"

definition demo_origin_requests :: "PushFindDataOriginRequest list" where
  "demo_origin_requests =
     [\<lparr> pfo_digest = ''d1'', pfo_data_type = DT_STR, pfo_compression_is_desired = True \<rparr>,
      \<lparr> pfo_digest = ''d2'', pfo_data_type = DT_NP_ARRAY, pfo_compression_is_desired = True \<rparr>]"

text \<open>
  The push scenario: a parent decoder for linear histories (an empty record means no
  parent, any other record is the digest of the one parent), the commit chain
  \<^verbatim>\<open>c1\<close>, \<^verbatim>\<open>c2\<close> pushed to the empty server with branch \<^verbatim>\<open>master\<close> set to
  \<^verbatim>\<open>c2\<close>, and the request of a peer that has no commit.
\<close>

definition demo_parents_of :: "bytes \<Rightarrow> string list" where
  "demo_parents_of pv = (if pv = [] then [] else [pv])"

definition demo_helpers :: helpers where
  "demo_helpers = spec_helpers demo_parents_of"

definition demo_commit :: "string \<Rightarrow> bytes \<Rightarrow> bytes \<Rightarrow> PushCommitRequest" where
  "demo_commit c parent blob =
     \<lparr> pc_commit = c, pc_total_byte_size = length blob,
       pc_record = \<lparr> cr_parent = parent, cr_ref = blob, cr_spec = ''spec'' \<rparr> \<rparr>"

definition demo_pushed :: server where
  "demo_pushed =
     snd (PushBranchRecord demo_helpers
            (snd (PushCommit demo_helpers
                    (snd (PushCommit demo_helpers (demo_server False) [demo_commit ''c1'' [] ''r1'']))
                    [demo_commit ''c2'' ''c1'' ''r2'']))
            \<lparr> br_name = ''master'', br_commit = ''c2'' \<rparr>)"

definition fresh_peer_request :: FindMissingCommitsRequest where
  "fresh_peer_request =
     \<lparr> fmq_branch = \<lparr> br_name = ''master'', br_commit = [] \<rparr>, fmq_commits = [] \<rparr>"

text \<open>
  An arrayset of shape \<open>(2, 3)\<close> and dtype \<^verbatim>\<open>float32\<close>, with fixed or variable
  shape, over a backend that appends payloads to a list; a toy digest; an array of a
  given dtype and shape; and the arrayset after that array was written under key
  \<^verbatim>\<open>"1"\<close>.
\<close>

definition demo_digest_of :: "ndarray \<Rightarrow> string" where
  "demo_digest_of arr = ''d:'' @ arr_dtype arr @ '':'' @ arr_bytes arr"

definition demo_be_write ::
  "(string \<times> bytes) list \<Rightarrow> schema \<Rightarrow> ndarray \<Rightarrow> string \<times> (string \<times> bytes) list" where
  "demo_be_write be sch arr =
     (let locator = schema_backend sch @ '':'' @ replicate (length be) (CHR ''i'')
      in (locator, be @ [(locator, arr_bytes arr)]))"

definition demo_aset :: "bool \<Rightarrow> (string \<times> bytes) list arrayset" where
  "demo_aset var =
     \<lparr> aset_schema = \<lparr> schema_dtype = ''float32'', schema_shape = [2, 3],
                        variable_shape = var, schema_backend = ''00'' \<rparr>,
       samples = [], hashes = [], backend = [] \<rparr>"

definition demo_array :: "string \<Rightarrow> nat list \<Rightarrow> ndarray" where
  "demo_array dt shp =
     \<lparr> arr_dtype = dt, arr_shape = shp, c_contiguous = True, arr_bytes = ''zeros'' \<rparr>"

definition demo_aset_one :: "(string \<times> bytes) list arrayset" where
  "demo_aset_one =
     (demo_aset False)
       \<lparr> samples := [(KStr ''1'', ''d:float32:zeros'')],
         hashes := [(''d:float32:zeros'', ''00:'')],
         backend := [(''00:'', ''zeros'')] \<rparr>"

section \<open>Properties of the dataset adapter\<close>

lemma od_setitem_fresh: "k \<notin> fst ` set d \<Longrightarrow> od_setitem d k v = d @ [(k, v)]"
  by (induction d) auto

lemma od_fold_distinct:
  "distinct (map fst (acc @ pairs)) \<Longrightarrow>
   foldl (\<lambda>d kv. od_setitem d (fst kv) (snd kv)) acc pairs = acc @ pairs"
proof (induction pairs arbitrary: acc)
  case Nil
  then show ?case by simp
next
  case (Cons p pairs)
  have fresh: "fst p \<notin> fst ` set acc" using Cons.prems by auto
  have "distinct (map fst ((acc @ [p]) @ pairs))" using Cons.prems by simp
  from Cons.IH[OF this] show ?case
    by (simp add: od_setitem_fresh[OF fresh])
qed

lemma od_of_pairs_distinct: "distinct (map fst pairs) \<Longrightarrow> od_of_pairs pairs = pairs"
  unfolding od_of_pairs_def using od_fold_distinct[of "[]" pairs] by simp

lemma od_of_pairs_zip:
  "distinct names \<Longrightarrow> od_of_pairs (zip names comps) = zip names comps"
  by (rule od_of_pairs_distinct) (simp add: map_fst_zip_take)

text \<open>
  C10. Whenever \<^verbatim>\<open>index_get(i)\<close> returns \<open>data\<close>: with \<^verbatim>\<open>as_dict\<close> false,
  \<^verbatim>\<open>__getitem__(i)\<close> is \<open>data\<close> itself; with \<^verbatim>\<open>as_dict\<close> true and exactly one
  column \<open>c\<close>, it is the one-entry dict \<open>{c: data}\<close>; with \<^verbatim>\<open>as_dict\<close> true and two
  or more columns, it is the \<^verbatim>\<open>OrderedDict\<close> built from zipping the column names with
  the components of \<open>data\<close>, which for column names that are pairwise different (they
  are the keys of a dict) is exactly the list of pairs in construction order.
\<close>

theorem getitem_contract:
  assumes "index_get (dataset self) i = Inr data"
  shows "(\<not> as_dict self \<longrightarrow> TorchDataset_getitem array_iter self i = Inr data)
       \<and> (as_dict self \<and> column_names self = [c] \<longrightarrow>
            TorchDataset_getitem array_iter self i = Inr (Dict [(c, data)]))
       \<and> (as_dict self \<and> 2 \<le> length (column_names self)
            \<and> py_iter array_iter data = Inr comps \<longrightarrow>
            TorchDataset_getitem array_iter self i
              = Inr (OrderedDict (od_of_pairs (zip (column_names self) comps)))
            \<and> (distinct (column_names self) \<longrightarrow>
                 od_of_pairs (zip (column_names self) comps) = zip (column_names self) comps))"
  using assms by (auto simp: TorchDataset_getitem_def od_of_pairs_zip)

theorem getitem_contract_witness:
  "TorchDataset_getitem (\<lambda>a. Inl TypeError)
      (TorchDataset_init (demo_dataset [''images'', ''classes''] (Tuple [Array 7, Array 9])) False) 0
     = Inr (Tuple [Array 7, Array 9])
   \<and> TorchDataset_getitem (\<lambda>a. Inl TypeError)
      (TorchDataset_init (demo_dataset [''images''] (Array 7)) True) 0
     = Inr (Dict [(''images'', Array 7)])
   \<and> TorchDataset_getitem (\<lambda>a. Inl TypeError)
      (TorchDataset_init (demo_dataset [''images'', ''classes''] (Tuple [Array 7, Array 9])) True) 0
     = Inr (OrderedDict [(''images'', Array 7), (''classes'', Array 9)])"
proof -
  let ?it = "\<lambda>a::nat. (Inl TypeError :: py_exn + nat py_obj list)"
  let ?two = "demo_dataset [''images'', ''classes''] (Tuple [Array 7, Array 9])"
  let ?one = "demo_dataset [''images''] (Array 7)"
  have g2: "index_get (dataset (TorchDataset_init ?two b)) 0 = Inr (Tuple [Array 7, Array 9])" for b
    by (simp add: TorchDataset_init_def demo_dataset_def)
  have g1: "index_get (dataset (TorchDataset_init ?one True)) 0 = Inr (Array 7)"
    by (simp add: TorchDataset_init_def demo_dataset_def)
  have n2: "column_names (TorchDataset_init ?two b) = [''images'', ''classes'']" for b
    by (simp add: TorchDataset_init_def demo_dataset_def)
  have n1: "column_names (TorchDataset_init ?one True) = [''images'']"
    by (simp add: TorchDataset_init_def demo_dataset_def)
  have a2: "as_dict (TorchDataset_init ?two b) = b" for b
    by (simp add: TorchDataset_init_def)
  have a1: "as_dict (TorchDataset_init ?one True)"
    by (simp add: TorchDataset_init_def)
  have it: "py_iter ?it (Tuple [Array 7, Array 9]) = Inr [Array 7, Array 9]" by simp
  from getitem_contract[OF g2, of False ?it "''x''" "[]"]
  have p1: "TorchDataset_getitem ?it (TorchDataset_init ?two False) 0 = Inr (Tuple [Array 7, Array 9])"
    by (simp add: a2)
  from getitem_contract[OF g1, of ?it "''images''" "[]"]
  have p2: "TorchDataset_getitem ?it (TorchDataset_init ?one True) 0 = Inr (Dict [(''images'', Array 7)])"
    by (simp add: a1 n1)
  from getitem_contract[OF g2, of True ?it "''x''" "[Array 7, Array 9]"]
  have p3: "TorchDataset_getitem ?it (TorchDataset_init ?two True) 0
      = Inr (OrderedDict [(''images'', Array 7), (''classes'', Array 9)])"
    by (simp add: a2 n2)
  from p1 p2 p3 show ?thesis by simp
qed

section \<open>Properties of the push-data handler\<close>

text \<open>
  C2. A non-empty \<^verbatim>\<open>PushData\<close> stream that arrives while the data writer's context is
  not open (\<^verbatim>\<open>self.DW.is_cm\<close> is false) is aborted with \<^verbatim>\<open>FAILED_PRECONDITION\<close> and the
  server state is left as it was, whatever the decompressor, deserialiser, hash
  function and data writer would do: none of them is reached.
\<close>

theorem PushData_without_context:
  "\<not> is_cm s \<Longrightarrow> request_iterator \<noteq> [] \<Longrightarrow>
   PushData ext s request_iterator = (Aborted FAILED_PRECONDITION, s)"
  by (cases request_iterator) (simp_all add: PushData_def)

theorem PushData_without_context_witness:
  "PushData demo_ext (demo_server False) [demo_push ''hab'']
     = (Aborted FAILED_PRECONDITION, demo_server False)"
  using PushData_without_context[of "demo_server False" "[demo_push ''hab'']" demo_ext]
  by (simp add: demo_server_def)

text \<open>
  C1. Inside an open push context, when the payload assembled from the stream
  decompresses and deserialises, and the hash recomputed from it differs from the digest
  the client asserted (the \<^verbatim>\<open>uri\<close> of the first request), the call is aborted with
  \<^verbatim>\<open>DATA_LOSS\<close> and the server state is exactly what it was, for every data writer
  \<open>w\<close>: the data-write operation is not invoked. So no entry for the asserted
  digest is created: a server that had none before has none afterwards.
\<close>

theorem PushData_hash_mismatch:
  assumes "is_cm s"
    and "request_iterator = request # rest"
    and "blosc_decompress ext (PushData_dBytes request_iterator) = Inr uncompBytes"
    and "deserialize_data ext (pd_data_type request) uncompBytes = Inr recieved_data"
    and "hash_func_from_tcode ext (pd_data_type request) = Inr hash_func"
    and "hash_func recieved_data = Inr recieved_hash"
    and "recieved_hash \<noteq> pd_uri request"
  shows "PushData (ext\<lparr> DW_data := w \<rparr>) s request_iterator = (Aborted DATA_LOSS, s)
       \<and> (txn_get (hash_data s) (pd_uri request) = None \<longrightarrow>
            txn_get (hash_data (snd (PushData (ext\<lparr> DW_data := w \<rparr>) s request_iterator)))
              (pd_uri request) = None)"
proof -
  have "PushData (ext\<lparr> DW_data := w \<rparr>) s request_iterator = (Aborted DATA_LOSS, s)"
    using assms by (simp add: PushData_def)
  then show ?thesis by simp
qed

lemma demo_dBytes: "PushData_dBytes [demo_push u] = ''ab''"
  by (simp add: PushData_dBytes_def demo_push_def bytearray_def slice_assign_def)

theorem PushData_hash_mismatch_witness:
  "PushData demo_ext (demo_server True) [demo_push ''d''] = (Aborted DATA_LOSS, demo_server True)
   \<and> txn_get (hash_data (snd (PushData demo_ext (demo_server True) [demo_push ''d'']))) ''d'' = None
   \<and> PushData demo_ext (demo_server True) [demo_push ''hab'']
       = (Returned OK \<lparr> pdr_error = err_OK \<rparr>,
          (demo_server True)\<lparr> hash_data := [(''hab'', ''00'')] \<rparr>)"
proof -
  have a: "is_cm (demo_server True)" by (simp add: demo_server_def)
  have b: "blosc_decompress demo_ext (PushData_dBytes [demo_push ''d'']) = Inr ''ab''"
    by (simp add: demo_dBytes demo_ext_def)
  have c: "deserialize_data demo_ext (pd_data_type (demo_push ''d'')) ''ab'' = Inr ''ab''"
    by (simp add: demo_ext_def)
  have d: "hash_func_from_tcode demo_ext (pd_data_type (demo_push ''d''))
             = Inr (\<lambda>d. Inr (''h'' @ d))"
    by (simp add: demo_ext_def)
  have e: "(\<lambda>d. Inr (''h'' @ d)) ''ab'' = (Inr ''hab'' :: py_exn + string)" by simp
  have f: "''hab'' \<noteq> pd_uri (demo_push ''d'')" by (simp add: demo_push_def)
  have g: "demo_ext\<lparr> DW_data := DW_data demo_ext \<rparr> = demo_ext" by simp
  have h: "txn_get (hash_data (demo_server True)) (pd_uri (demo_push ''d'')) = None"
    by (simp add: demo_server_def txn_get_def)
  have i: "pd_uri (demo_push ''d'') = ''d''" by (simp add: demo_push_def)
  have good: "PushData demo_ext (demo_server True) [demo_push ''hab'']
       = (Returned OK \<lparr> pdr_error = err_OK \<rparr>,
          (demo_server True)\<lparr> hash_data := [(''hab'', ''00'')] \<rparr>)"
    by (simp add: PushData_def demo_dBytes) (simp add: demo_ext_def demo_server_def demo_push_def)
  from PushData_hash_mismatch[OF a refl b c d e f, of "DW_data demo_ext"] h good
  show ?thesis unfolding g i by simp
qed

section \<open>The helpers written from the spec\<close>

lemma txn_get_Some_key: "txn_get db k = Some v \<Longrightarrow> k \<in> set (map fst db)"
  by (auto simp: txn_get_def dest: map_of_SomeD intro: rev_image_eqI)

lemma txn_get_key_iff: "(txn_get db k \<noteq> None) = (k \<in> set (map fst db))"
  by (simp add: txn_get_def map_of_eq_None_iff)

lemma demo_helpers_fields:
  "get_branch_names demo_helpers = spec_get_branch_names"
  "get_branch_head_commit demo_helpers = spec_get_branch_head_commit"
  "create_branch demo_helpers = spec_create_branch"
  "set_branch_head_commit demo_helpers = spec_set_branch_head_commit"
  "CW_commit demo_helpers = spec_CW_commit"
  "CW_schema demo_helpers = spec_CW_schema"
  "backend_decoder demo_helpers = spec_backend_decoder"
  "list_history demo_helpers = spec_list_history demo_parents_of"
  "list_all_commits demo_helpers = spec_list_all_commits"
  by (simp_all add: demo_helpers_def spec_helpers_def)

text \<open>
  The content writer written from the spec keeps its contract: for a commit or schema
  digest that is recorded it returns \<^verbatim>\<open>False\<close> and leaves the state alone.
\<close>

lemma spec_CW_commit_existing:
  "commit \<in> set (spec_list_all_commits s) \<Longrightarrow>
   spec_CW_commit s commit parentVal specVal refVal = (None, s)"
proof -
  assume "commit \<in> set (spec_list_all_commits s)"
  then have "commit \<in> set (map fst (commit_refs s))
      \<or> commit \<in> set (map fst (commit_parents s))
      \<or> commit \<in> set (map fst (commit_specs s))"
    by (auto simp: spec_list_all_commits_def)
  then have "txn_get (commit_refs s) commit \<noteq> None
      \<or> txn_get (commit_parents s) commit \<noteq> None
      \<or> txn_get (commit_specs s) commit \<noteq> None"
    by (simp only: txn_get_key_iff)
  then show ?thesis
    unfolding spec_CW_commit_def by (simp only: if_True)
qed

lemma spec_CW_schema_existing:
  "txn_get (hash_schema s) schema_hash \<noteq> None \<Longrightarrow>
   spec_CW_schema s schema_hash schemaVal = (None, s)"
  by (simp add: spec_CW_schema_def)

section \<open>Re-pushing content the server already holds\<close>

text \<open>
  C3, as stated, fails. On a server that already holds commit \<^verbatim>\<open>c1\<close>, schema
  \<^verbatim>\<open>s1\<close> and branch \<^verbatim>\<open>master\<close> at \<^verbatim>\<open>c1\<close>, pushing the same branch head aborts the
  call with status \<^verbatim>\<open>ALREADY_EXISTS\<close>, and pushing the same commit or schema returns a
  reply with error code 6 under status \<^verbatim>\<open>ALREADY_EXISTS\<close>: an error status, not
  success.
\<close>

theorem repush_counterexample:
  "PushBranchRecord demo_helpers demo_repo \<lparr> br_name = ''master'', br_commit = ''c1'' \<rparr>
     = (Aborted ALREADY_EXISTS, demo_repo)
   \<and> PushCommit demo_helpers demo_repo [demo_commit_request]
     = (Returned ALREADY_EXISTS
          \<lparr> pcr_error = \<lparr> err_code = 6, err_message = ''COMMIT: c1 ALREADY EXISTS'' \<rparr> \<rparr>,
        demo_repo)
   \<and> PushSchema demo_helpers demo_repo \<lparr> sr_digest = ''s1'', sr_blob = ''schemablob'' \<rparr>
     = (Returned ALREADY_EXISTS
          \<lparr> psr_error = \<lparr> err_code = 6, err_message = ''SCHEMA: s1 ALREADY EXISTS ON SERVER'' \<rparr> \<rparr>,
        demo_repo)"
  by (simp add: PushBranchRecord_def PushCommit_def PushSchema_def demo_helpers_fields
      demo_repo_def demo_commit_request_def spec_get_branch_names_def
      spec_get_branch_head_commit_def txn_get_def spec_CW_commit_def spec_CW_schema_def
      py_not_def Let_def)

text \<open>
  C3, amended. Re-pushing what the server already holds leaves the server state
  unchanged and is reported with status \<^verbatim>\<open>ALREADY_EXISTS\<close>. \<^verbatim>\<open>PushBranchRecord\<close>
  for an existing branch whose current head is the pushed commit aborts the call with
  that status and touches nothing. \<^verbatim>\<open>PushSchema\<close> and \<^verbatim>\<open>PushCommit\<close>, when the content
  writer finds the digest recorded (it returns \<^verbatim>\<open>False\<close> and has written nothing),
  return a reply whose error has code 6, with that status set on the context, and the
  state is as before.
\<close>

theorem repush_reports_already_exists:
  "(br_name rec \<in> set (get_branch_names hp (branchenv s))
      \<and> get_branch_head_commit hp (branchenv s) (br_name rec) = Inr (br_commit rec) \<longrightarrow>
      PushBranchRecord hp s rec = (Aborted ALREADY_EXISTS, s))
   \<and> (CW_schema hp s (sr_digest srec) (sr_blob srec) = (None, s) \<longrightarrow>
      PushSchema hp s srec
        = (Returned ALREADY_EXISTS
             \<lparr> psr_error = \<lparr> err_code = 6,
                              err_message = ''SCHEMA: '' @ sr_digest srec @ '' ALREADY EXISTS ON SERVER'' \<rparr> \<rparr>,
           s))
   \<and> (CW_commit hp s (pc_commit request) (cr_parent (pc_record request))
          (cr_spec (pc_record request)) (PushCommit_refBytes (request # rest)) = (None, s) \<longrightarrow>
      PushCommit hp s (request # rest)
        = (Returned ALREADY_EXISTS
             \<lparr> pcr_error = \<lparr> err_code = 6,
                              err_message = ''COMMIT: '' @ pc_commit request @ '' ALREADY EXISTS'' \<rparr> \<rparr>,
           s))"
  by (simp add: PushBranchRecord_def PushSchema_def PushCommit_def py_not_def Let_def)

theorem repush_reports_already_exists_witness:
  "PushBranchRecord demo_helpers demo_repo \<lparr> br_name = ''master'', br_commit = ''c1'' \<rparr>
     = (Aborted ALREADY_EXISTS, demo_repo)
   \<and> PushSchema demo_helpers demo_repo \<lparr> sr_digest = ''s1'', sr_blob = ''other'' \<rparr>
     = (Returned ALREADY_EXISTS
          \<lparr> psr_error = \<lparr> err_code = 6, err_message = ''SCHEMA: s1 ALREADY EXISTS ON SERVER'' \<rparr> \<rparr>,
        demo_repo)
   \<and> PushCommit demo_helpers demo_repo [demo_commit_request, demo_commit_request]
     = (Returned ALREADY_EXISTS
          \<lparr> pcr_error = \<lparr> err_code = 6, err_message = ''COMMIT: c1 ALREADY EXISTS'' \<rparr> \<rparr>,
        demo_repo)"
proof -
  let ?rec = "\<lparr> br_name = ''master'', br_commit = ''c1'' \<rparr>"
  let ?srec = "\<lparr> sr_digest = ''s1'', sr_blob = ''other'' \<rparr>"
  have a: "br_name ?rec \<in> set (get_branch_names demo_helpers (branchenv demo_repo))
      \<and> get_branch_head_commit demo_helpers (branchenv demo_repo) (br_name ?rec)
          = Inr (br_commit ?rec)"
    by (simp add: demo_helpers_fields spec_get_branch_names_def spec_get_branch_head_commit_def
        demo_repo_def txn_get_def)
  have "txn_get (hash_schema demo_repo) ''s1'' \<noteq> None"
    by (simp add: demo_repo_def txn_get_def)
  then have b: "CW_schema demo_helpers demo_repo (sr_digest ?srec) (sr_blob ?srec) = (None, demo_repo)"
    by (simp add: demo_helpers_fields spec_CW_schema_existing)
  have "pc_commit demo_commit_request \<in> set (spec_list_all_commits demo_repo)"
    by (simp add: demo_commit_request_def spec_list_all_commits_def demo_repo_def)
  then have c: "CW_commit demo_helpers demo_repo (pc_commit demo_commit_request)
          (cr_parent (pc_record demo_commit_request)) (cr_spec (pc_record demo_commit_request))
          (PushCommit_refBytes (demo_commit_request # [demo_commit_request])) = (None, demo_repo)"
    by (simp add: demo_helpers_fields spec_CW_commit_existing)
  from repush_reports_already_exists[of ?rec demo_helpers demo_repo ?srec demo_commit_request
      "[demo_commit_request]"] a b c
  show ?thesis by (simp add: demo_commit_request_def)
qed

section \<open>Streaming fetch handlers on a missing record\<close>

text \<open>
  On a commit the server has no ref record of, \<^verbatim>\<open>FetchCommit\<close> yields the one error
  frame; how the generator then ends depends on the interpreter. The same holds for
  \<^verbatim>\<open>FetchFindDataOrigin\<close> on a digest without hash record.
\<close>

lemma FetchCommit_missing:
  "txn_get (commit_refs s) commit = None \<Longrightarrow>
   FetchCommit pep479 chunk_bytes s commit
     = \<lparr> frames = [\<lparr> fc_commit = commit, fc_total_byte_size = 0,
                     fc_record = \<lparr> cr_parent = [], cr_ref = [], cr_spec = [] \<rparr>,
                     fc_error = \<lparr> err_code = 5,
                                   err_message = ''COMMIT: '' @ commit @ '' DOES NOT EXIST ON SERVER'' \<rparr> \<rparr>],
         ending = (if pep479 then Some RuntimeError else None),
         status = NOT_FOUND \<rparr>"
  by (simp add: FetchCommit_def generator_raise_def)

lemma FetchFindDataOrigin_missing:
  "txn_get (hash_data s) digest = None \<Longrightarrow>
   FetchFindDataOrigin pep479 hp s (digest # digests)
     = \<lparr> frames = [FetchDataReply_frame
                      \<lparr> err_code = 5, err_message = ''HASH DOES NOT EXIST: '' @ digest \<rparr>],
         ending = (if pep479 then Some RuntimeError else None),
         status = NOT_FOUND \<rparr>"
  by (simp add: FetchFindDataOrigin_def generator_raise_def)

text \<open>
  C5 on an interpreter with PEP 479 (CPython 3.7 and later). Asked for a commit or a
  data digest the server does not hold, \<^verbatim>\<open>FetchCommit\<close> and \<^verbatim>\<open>FetchFindDataOrigin\<close>
  yield exactly one frame carrying the error (code 5, status \<^verbatim>\<open>NOT_FOUND\<close> set on the
  context), and then the generator does not end normally: its
  \<^verbatim>\<open>raise StopIteration()\<close> leaves it as \<^verbatim>\<open>RuntimeError\<close>.
\<close>

theorem FetchCommit_missing_raises:
  "FetchCommit True (\<lambda>b. [b]) demo_repo ''c9''
     = \<lparr> frames = [\<lparr> fc_commit = ''c9'', fc_total_byte_size = 0,
                     fc_record = \<lparr> cr_parent = [], cr_ref = [], cr_spec = [] \<rparr>,
                     fc_error = \<lparr> err_code = 5,
                                   err_message = ''COMMIT: c9 DOES NOT EXIST ON SERVER'' \<rparr> \<rparr>],
         ending = Some RuntimeError,
         status = NOT_FOUND \<rparr>
   \<and> FetchFindDataOrigin True demo_helpers demo_repo [''d9'']
     = \<lparr> frames = [FetchDataReply_frame
                      \<lparr> err_code = 5, err_message = ''HASH DOES NOT EXIST: d9'' \<rparr>],
         ending = Some RuntimeError,
         status = NOT_FOUND \<rparr>"
  by (simp add: FetchCommit_def FetchFindDataOrigin_def demo_repo_def txn_get_def generator_raise_def)

section \<open>Missing-commit reconciliation\<close>

lemma ancestors_mono: "set seen \<subseteq> set (ancestors po tbl todo seen)"
proof (induction po tbl todo seen rule: ancestors.induct)
  case (1 po tbl seen)
  show ?case by (simp add: ancestors.simps)
next
  case (2 po tbl c todo seen)
  show ?case
  proof (cases "c \<in> set seen")
    case True
    with 2(1) show ?thesis by (simp add: ancestors.simps)
  next
    case False
    show ?thesis
    proof (cases "txn_get tbl c")
      case None
      with False 2(2) show ?thesis by (simp add: ancestors.simps)
    next
      case (Some pv)
      with False 2(3) have "set (seen @ [c]) \<subseteq> set (ancestors po tbl (po pv @ todo) (seen @ [c]))"
        by blast
      with False Some show ?thesis by (simp add: ancestors.simps)
    qed
  qed
qed

lemma ancestors_sound:
  "set (ancestors po tbl todo seen)
     \<subseteq> set seen \<union> {c. \<exists>t\<in>set todo. (t, c) \<in> (parent_rel po tbl)\<^sup>* \<and> txn_get tbl c \<noteq> None}"
proof (induction po tbl todo seen rule: ancestors.induct)
  case (1 po tbl seen)
  show ?case by (simp add: ancestors.simps)
next
  case (2 po tbl c todo seen)
  show ?case
  proof (cases "c \<in> set seen")
    case True
    with 2(1) show ?thesis by (auto simp: ancestors.simps)
  next
    case False
    show ?thesis
    proof (cases "txn_get tbl c")
      case None
      with False 2(2) show ?thesis by (auto simp: ancestors.simps)
    next
      case (Some pv)
      have step: "(c, p) \<in> parent_rel po tbl" if "p \<in> set (po pv)" for p
        using that Some by (auto simp: parent_rel_def)
      have ih: "set (ancestors po tbl (po pv @ todo) (seen @ [c]))
          \<subseteq> set (seen @ [c]) \<union> {x. \<exists>t\<in>set (po pv @ todo). (t, x) \<in> (parent_rel po tbl)\<^sup>* \<and> txn_get tbl x \<noteq> None}"
        using 2(3)[OF False Some] .
      have "set (ancestors po tbl (c # todo) seen) = set (ancestors po tbl (po pv @ todo) (seen @ [c]))"
        using False Some by (simp add: ancestors.simps)
      moreover have "set (seen @ [c]) \<union> {x. \<exists>t\<in>set (po pv @ todo). (t, x) \<in> (parent_rel po tbl)\<^sup>* \<and> txn_get tbl x \<noteq> None}
          \<subseteq> set seen \<union> {x. \<exists>t\<in>set (c # todo). (t, x) \<in> (parent_rel po tbl)\<^sup>* \<and> txn_get tbl x \<noteq> None}"
      proof
        fix x
        assume "x \<in> set (seen @ [c]) \<union> {x. \<exists>t\<in>set (po pv @ todo). (t, x) \<in> (parent_rel po tbl)\<^sup>* \<and> txn_get tbl x \<noteq> None}"
        then consider "x \<in> set seen" | "x = c"
          | p where "p \<in> set (po pv)" "(p, x) \<in> (parent_rel po tbl)\<^sup>*" "txn_get tbl x \<noteq> None"
          | t where "t \<in> set todo" "(t, x) \<in> (parent_rel po tbl)\<^sup>*" "txn_get tbl x \<noteq> None"
          by auto
        then show "x \<in> set seen \<union> {x. \<exists>t\<in>set (c # todo). (t, x) \<in> (parent_rel po tbl)\<^sup>* \<and> txn_get tbl x \<noteq> None}"
        proof cases
          case 1 then show ?thesis by simp
        next
          case 2 with Some show ?thesis by auto
        next
          case 3
          from step[OF 3(1)] 3(2) have "(c, x) \<in> (parent_rel po tbl)\<^sup>*"
            by (rule converse_rtrancl_into_rtrancl)
          with 3(3) show ?thesis by auto
        next
          case 4 then show ?thesis by auto
        qed
      qed
      ultimately show ?thesis using ih by blast
    qed
  qed
qed

lemma ancestors_closed:
  "(\<forall>x\<in>set seen. \<forall>p. (x, p) \<in> parent_rel po tbl \<and> txn_get tbl p \<noteq> None \<longrightarrow> p \<in> set seen \<union> set todo)
   \<Longrightarrow> (\<forall>t\<in>set todo. txn_get tbl t \<noteq> None \<longrightarrow> t \<in> set (ancestors po tbl todo seen))
     \<and> (\<forall>x\<in>set (ancestors po tbl todo seen). \<forall>p.
           (x, p) \<in> parent_rel po tbl \<and> txn_get tbl p \<noteq> None \<longrightarrow> p \<in> set (ancestors po tbl todo seen))"
proof (induction po tbl todo seen rule: ancestors.induct)
  case (1 po tbl seen)
  then show ?case by (simp add: ancestors.simps)
next
  case (2 po tbl c todo seen)
  show ?case
  proof (cases "c \<in> set seen")
    case True
    have inv: "\<forall>x\<in>set seen. \<forall>p. (x, p) \<in> parent_rel po tbl \<and> txn_get tbl p \<noteq> None \<longrightarrow> p \<in> set seen \<union> set todo"
      using 2(4) True by auto
    have eq: "ancestors po tbl (c # todo) seen = ancestors po tbl todo seen"
      using True by (simp add: ancestors.simps)
    have "c \<in> set (ancestors po tbl todo seen)"
      using True ancestors_mono[of seen po tbl todo] by blast
    with 2(1)[OF True inv] show ?thesis unfolding eq by auto
  next
    case False
    show ?thesis
    proof (cases "txn_get tbl c")
      case None
      have inv: "\<forall>x\<in>set seen. \<forall>p. (x, p) \<in> parent_rel po tbl \<and> txn_get tbl p \<noteq> None \<longrightarrow> p \<in> set seen \<union> set todo"
      proof (intro ballI allI impI)
        fix x p
        assume x: "x \<in> set seen" and p: "(x, p) \<in> parent_rel po tbl \<and> txn_get tbl p \<noteq> None"
        with 2(4) have "p \<in> set seen \<union> set (c # todo)" by blast
        moreover from p None have "p \<noteq> c" by auto
        ultimately show "p \<in> set seen \<union> set todo" by simp
      qed
      have eq: "ancestors po tbl (c # todo) seen = ancestors po tbl todo seen"
        using False None by (simp add: ancestors.simps)
      from 2(2)[OF False None inv] None show ?thesis unfolding eq by auto
    next
      case (Some pv)
      have inv: "\<forall>x\<in>set (seen @ [c]). \<forall>p. (x, p) \<in> parent_rel po tbl \<and> txn_get tbl p \<noteq> None
                   \<longrightarrow> p \<in> set (seen @ [c]) \<union> set (po pv @ todo)"
        using 2(4) Some by (auto simp: parent_rel_def)
      have eq: "ancestors po tbl (c # todo) seen = ancestors po tbl (po pv @ todo) (seen @ [c])"
        using False Some by (simp add: ancestors.simps)
      have "c \<in> set (ancestors po tbl (po pv @ todo) (seen @ [c]))"
        using ancestors_mono[of "seen @ [c]" po tbl "po pv @ todo"] by auto
      with 2(3)[OF False Some inv] show ?thesis unfolding eq by auto
    qed
  qed
qed

lemma ancestors_reachable:
  "set (ancestors parents_of tbl [head] []) = reachable_commits parents_of tbl head"
proof
  show "set (ancestors parents_of tbl [head] []) \<subseteq> reachable_commits parents_of tbl head"
    using ancestors_sound[of parents_of tbl "[head]" "[]"]
    by (auto simp: reachable_commits_def)
next
  have cl: "(\<forall>t\<in>set [head]. txn_get tbl t \<noteq> None \<longrightarrow> t \<in> set (ancestors parents_of tbl [head] []))
     \<and> (\<forall>x\<in>set (ancestors parents_of tbl [head] []). \<forall>p.
           (x, p) \<in> parent_rel parents_of tbl \<and> txn_get tbl p \<noteq> None
             \<longrightarrow> p \<in> set (ancestors parents_of tbl [head] []))"
    by (rule ancestors_closed) simp
  have "txn_get tbl c \<noteq> None \<longrightarrow> c \<in> set (ancestors parents_of tbl [head] [])"
    if "(head, c) \<in> (parent_rel parents_of tbl)\<^sup>*" for c
    using that
  proof (induction rule: rtrancl_induct)
    case base
    from cl show ?case by simp
  next
    case (step y z)
    from step(2) have "txn_get tbl y \<noteq> None" by (auto simp: parent_rel_def)
    with step(3) have "y \<in> set (ancestors parents_of tbl [head] [])" by simp
    with cl step(2) show ?case by blast
  qed
  then show "reachable_commits parents_of tbl head \<subseteq> set (ancestors parents_of tbl [head] [])"
    by (auto simp: reachable_commits_def)
qed

lemma set_set_difference: "set (set_difference a b) = set a - set b"
  by (auto simp: set_difference_def)

lemma distinct_set_difference: "distinct (set_difference a b)"
  by (simp add: set_difference_def)

text \<open>
  The history written from the spec is the set of recorded commits reachable from the
  branch head through parent records.
\<close>

lemma spec_list_history_reachable:
  "spec_list_history parents_of s branch_name = Inr h \<Longrightarrow>
   set (hist_order h) = reachable_commits parents_of (commit_parents s) (hist_head h)"
  by (auto simp: spec_list_history_def ancestors_reachable split: sum.splits)

lemma demo_pushed_eq:
  "demo_pushed =
     \<lparr> commit_refs = [(''c1'', ''r1''), (''c2'', ''r2'')],
       commit_parents = [(''c1'', []), (''c2'', ''c1'')],
       commit_specs = [(''c1'', ''spec''), (''c2'', ''spec'')],
       branchenv = [(''master'', ''c2'')],
       hash_data = [], hash_schema = [], is_cm = False \<rparr>"
  by (simp add: demo_pushed_def PushBranchRecord_def PushCommit_def PushCommit_refBytes_def
      demo_helpers_fields demo_server_def demo_commit_def spec_CW_commit_def txn_get_def
      py_not_def bytearray_def slice_assign_def spec_get_branch_names_def
      spec_create_branch_def Let_def)

lemma demo_history:
  "list_history demo_helpers demo_pushed ''master''
     = Inr \<lparr> hist_head = ''c2'', hist_order = [''c2'', ''c1''] \<rparr>"
  by (simp add: demo_helpers_fields spec_list_history_def spec_get_branch_head_commit_def
      demo_pushed_eq txn_get_def demo_parents_of_def ancestors.simps)

text \<open>
  C4. For a branch the server has (\<^verbatim>\<open>list_history\<close> returns its history),
  \<^verbatim>\<open>FetchFindMissingCommits\<close> returns success and the set of commits of its reply is
  the set of the commits of the branch history minus the client's commits.
  \<^verbatim>\<open>PushFindMissingCommits\<close> returns success and the set of commits of its reply is the
  client's commits minus all commits on the server. After the chain \<^verbatim>\<open>c1\<close>, \<^verbatim>\<open>c2\<close>
  has been pushed to an empty server and branch \<^verbatim>\<open>master\<close> set to \<^verbatim>\<open>c2\<close> (with the
  helpers written from the spec), a peer that has no commit is told \<open>{c1, c2}\<close>.
\<close>

theorem missing_commits_set_difference:
  "(list_history hp s (br_name (fmq_branch request)) = Inr h \<longrightarrow>
      FetchFindMissingCommits hp s request
        = Returned OK
            \<lparr> fmr_branch = \<lparr> br_name = br_name (fmq_branch request), br_commit = hist_head h \<rparr>,
              fmr_commits = set_difference (hist_order h) (fmq_commits request),
              fmr_error = err_OK \<rparr>
      \<and> missing_commits (FetchFindMissingCommits hp s request)
          = set (hist_order h) - set (fmq_commits request))
   \<and> PushFindMissingCommits hp s request
        = Returned OK
            \<lparr> fmr_branch = fmq_branch request,
              fmr_commits = set_difference (fmq_commits request) (list_all_commits hp s),
              fmr_error = err_OK \<rparr>
   \<and> missing_commits (PushFindMissingCommits hp s request)
        = set (fmq_commits request) - set (list_all_commits hp s)
   \<and> missing_commits (FetchFindMissingCommits demo_helpers demo_pushed fresh_peer_request)
        = {''c1'', ''c2''}"
proof (intro conjI impI)
  assume h: "list_history hp s (br_name (fmq_branch request)) = Inr h"
  show f: "FetchFindMissingCommits hp s request
        = Returned OK
            \<lparr> fmr_branch = \<lparr> br_name = br_name (fmq_branch request), br_commit = hist_head h \<rparr>,
              fmr_commits = set_difference (hist_order h) (fmq_commits request),
              fmr_error = err_OK \<rparr>"
    using h by (simp add: FetchFindMissingCommits_def Let_def)
  show "missing_commits (FetchFindMissingCommits hp s request)
          = set (hist_order h) - set (fmq_commits request)"
    unfolding f by (simp add: missing_commits_def set_set_difference)
next
  show p: "PushFindMissingCommits hp s request
        = Returned OK
            \<lparr> fmr_branch = fmq_branch request,
              fmr_commits = set_difference (fmq_commits request) (list_all_commits hp s),
              fmr_error = err_OK \<rparr>"
    by (simp add: PushFindMissingCommits_def Let_def)
  show "missing_commits (PushFindMissingCommits hp s request)
        = set (fmq_commits request) - set (list_all_commits hp s)"
    unfolding p by (simp add: missing_commits_def set_set_difference)
next
  show "missing_commits (FetchFindMissingCommits demo_helpers demo_pushed fresh_peer_request)
        = {''c1'', ''c2''}"
    using demo_history
    by (auto simp: FetchFindMissingCommits_def Let_def fresh_peer_request_def missing_commits_def
        set_set_difference)
qed

theorem missing_commits_set_difference_witness:
  "FetchFindMissingCommits demo_helpers demo_pushed fresh_peer_request
     = Returned OK \<lparr> fmr_branch = \<lparr> br_name = ''master'', br_commit = ''c2'' \<rparr>,
                     fmr_commits = [''c2'', ''c1''], fmr_error = err_OK \<rparr>
   \<and> missing_commits (PushFindMissingCommits demo_helpers (demo_server False)
        \<lparr> fmq_branch = \<lparr> br_name = ''master'', br_commit = ''c2'' \<rparr>,
          fmq_commits = [''c1'', ''c2''] \<rparr>) = {''c1'', ''c2''}"
proof -
  let ?h = "\<lparr> hist_head = ''c2'', hist_order = [''c2'', ''c1''] \<rparr>"
  let ?q = "\<lparr> fmq_branch = \<lparr> br_name = ''master'', br_commit = ''c2'' \<rparr>,
             fmq_commits = [''c1'', ''c2''] \<rparr>"
  have h: "list_history demo_helpers demo_pushed (br_name (fmq_branch fresh_peer_request)) = Inr ?h"
    using demo_history by (simp add: fresh_peer_request_def)
  have e: "list_all_commits demo_helpers (demo_server False) = []"
    by (simp add: demo_helpers_fields spec_list_all_commits_def demo_server_def)
  have d: "set_difference [''c2'', ''c1''] [] = [''c2'', ''c1'']"
    by (simp add: set_difference_def)
  note t1 = missing_commits_set_difference[of demo_helpers demo_pushed fresh_peer_request ?h]
  note t2 = missing_commits_set_difference[of demo_helpers "demo_server False" ?q ?h]
  from t1 h have a: "FetchFindMissingCommits demo_helpers demo_pushed fresh_peer_request
     = Returned OK \<lparr> fmr_branch = \<lparr> br_name = ''master'', br_commit = ''c2'' \<rparr>,
                     fmr_commits = [''c2'', ''c1''], fmr_error = err_OK \<rparr>"
    by (simp add: fresh_peer_request_def d)
  from t2 have "missing_commits (PushFindMissingCommits demo_helpers (demo_server False) ?q)
      = set (fmq_commits ?q) - set (list_all_commits demo_helpers (demo_server False))"
    by blast
  then have c: "missing_commits (PushFindMissingCommits demo_helpers (demo_server False) ?q)
      = {''c1'', ''c2''}"
    by (simp add: e)
  from a c show ?thesis by simp
qed

section \<open>Compression options of the data-origin replies\<close>

lemma compression_opts_fetch_eq: "compression_opts_fetch = blosc_opts ''blosclz''"
  by (simp add: compression_opts_fetch_def blosc_opts_def)

lemma fetch_origin_frames:
  "\<forall>f\<in>set (frames (FetchFindDataOrigin_loop pep479 hp s digests)). advertises ''blosclz'' f"
proof (induction digests)
  case Nil
  show ?case by simp
next
  case (Cons d ds)
  show ?case
  proof (cases "txn_get (hash_data s) d")
    case None
    then show ?thesis by (simp add: advertises_def)
  next
    case (Some hashVal)
    show ?thesis
    proof (cases "backend_decoder hp hashVal")
      case (Inl e)
      with Some show ?thesis by simp
    next
      case (Inr spec_backend)
      show ?thesis
      proof (cases "origin_data_type spec_backend")
        case (Inl e)
        with Some \<open>backend_decoder hp hashVal = Inr spec_backend\<close> show ?thesis by simp
      next
        case (Inr dtype)
        with Some \<open>backend_decoder hp hashVal = Inr spec_backend\<close> Cons.IH show ?thesis
          by (simp add: Let_def advertises_def compression_opts_fetch_eq)
      qed
    qed
  qed
qed

lemma push_origin_frames:
  "\<forall>r\<in>set reqs. pfo_compression_is_desired r \<and> pfo_data_type r \<in> {DT_NP_ARRAY, DT_STR, DT_BYTES}
   \<Longrightarrow> PushFindDataOrigin pep479 reqs
       = \<lparr> frames = map expected_push_reply reqs, ending = None, status = OK \<rparr>"
proof (induction reqs)
  case Nil
  show ?case by simp
next
  case (Cons r reqs)
  then have ih: "PushFindDataOrigin pep479 reqs
       = \<lparr> frames = map expected_push_reply reqs, ending = None, status = OK \<rparr>"
    by simp
  from Cons.prems have d: "pfo_compression_is_desired r"
    and t: "pfo_data_type r = DT_NP_ARRAY \<or> pfo_data_type r = DT_STR \<or> pfo_data_type r = DT_BYTES"
    by auto
  from t have o: "push_compression_opts (pfo_data_type r)
      = Inr (blosc_opts (if pfo_data_type r = DT_STR then ''zstd'' else ''blosclz''))"
    by (auto simp: push_compression_opts_def blosc_opts_def)
  show ?case
    by (simp add: d o ih CONFIG_SEND_LOCATION_def expected_push_reply_def)
qed

text \<open>
  C6, as stated, fails. Digest \<^verbatim>\<open>d1\<close> is a string payload: its locator carries backend
  code \<^verbatim>\<open>30\<close>. The origin reply of \<^verbatim>\<open>FetchFindDataOrigin\<close> for it has data type
  \<^verbatim>\<open>STR\<close> and advertises codec \<^verbatim>\<open>blosclz\<close>, not \<^verbatim>\<open>zstd\<close>.
\<close>

theorem origin_compression_counterexample:
  "FetchFindDataOrigin True demo_helpers demo_repo [''d1'']
     = \<lparr> frames = [DataOriginReply_frame
                      \<lparr> dor_location = REMOTE_SERVER, dor_data_type = DT_STR,
                        dor_digest = ''d1'', dor_uri = ''d1'', dor_compression = True,
                        dor_compression_opts =
                          [(''id'', ''blosc''), (''cname'', ''blosclz''), (''clevel'', ''3'')] \<rparr>],
         ending = None, status = OK \<rparr>
   \<and> backend_decoder demo_helpers ''30:strings'' = Inr ''30''
   \<and> txn_get (hash_data demo_repo) ''d1'' = Some ''30:strings''"
  by (simp add: FetchFindDataOrigin_def demo_repo_def txn_get_def demo_helpers_fields
      spec_backend_decoder_def origin_data_type_def compression_opts_fetch_def)

text \<open>
  C6, amended. Every origin reply of \<^verbatim>\<open>FetchFindDataOrigin\<close> announces compression
  with blosc, codec \<^verbatim>\<open>blosclz\<close>, level 3, whatever the backend code of the digest
  (arrays, strings and bytes alike): a recorded digest whose locator decodes to a backend
  code of data type \<open>dtype\<close> is answered by exactly that reply. \<^verbatim>\<open>PushFindDataOrigin\<close>, for requests that desire
  compression and carry one of the three known data types, answers each request with
  blosc level 3 and codec \<^verbatim>\<open>zstd\<close> for a string payload, \<^verbatim>\<open>blosclz\<close> for an array or
  bytes payload.
\<close>

theorem origin_compression_defaults:
  "(\<forall>f\<in>set (frames (FetchFindDataOrigin pep479 hp s digests)). advertises ''blosclz'' f)
   \<and> (txn_get (hash_data s) digest = Some hashVal
        \<and> backend_decoder hp hashVal = Inr spec_backend
        \<and> origin_data_type spec_backend = Inr dtype \<longrightarrow>
        FetchFindDataOrigin pep479 hp s [digest]
          = \<lparr> frames = [DataOriginReply_frame
                           \<lparr> dor_location = REMOTE_SERVER, dor_data_type = dtype,
                             dor_digest = digest, dor_uri = digest, dor_compression = True,
                             dor_compression_opts = blosc_opts ''blosclz'' \<rparr>],
              ending = None, status = OK \<rparr>)
   \<and> ((\<forall>r\<in>set reqs. pfo_compression_is_desired r
                        \<and> pfo_data_type r \<in> {DT_NP_ARRAY, DT_STR, DT_BYTES}) \<longrightarrow>
        PushFindDataOrigin pep479 reqs
          = \<lparr> frames = map expected_push_reply reqs, ending = None, status = OK \<rparr>)"
  using fetch_origin_frames[of pep479 hp s digests] push_origin_frames[of reqs pep479]
  by (simp add: FetchFindDataOrigin_def compression_opts_fetch_eq)

theorem origin_compression_defaults_witness:
  "FetchFindDataOrigin True demo_helpers demo_repo [''d1'']
     = \<lparr> frames = [DataOriginReply_frame
                      \<lparr> dor_location = REMOTE_SERVER, dor_data_type = DT_STR,
                        dor_digest = ''d1'', dor_uri = ''d1'', dor_compression = True,
                        dor_compression_opts = blosc_opts ''blosclz'' \<rparr>],
         ending = None, status = OK \<rparr>
   \<and> frames (PushFindDataOrigin True demo_origin_requests)
     = [\<lparr> pfr_digest = ''d1'', pfr_location = REMOTE_SERVER, pfr_uri = ''d1'',
          pfr_compression_expected = True,
          pfr_compression_opts_expected = blosc_opts ''zstd'' \<rparr>,
        \<lparr> pfr_digest = ''d2'', pfr_location = REMOTE_SERVER, pfr_uri = ''d2'',
          pfr_compression_expected = True,
          pfr_compression_opts_expected = blosc_opts ''blosclz'' \<rparr>]"
proof -
  have rec: "txn_get (hash_data demo_repo) ''d1'' = Some ''30:strings''
      \<and> backend_decoder demo_helpers ''30:strings'' = Inr ''30''
      \<and> origin_data_type ''30'' = Inr DT_STR"
    by (simp add: demo_repo_def txn_get_def demo_helpers_fields spec_backend_decoder_def
        origin_data_type_def)
  have pre: "\<forall>r\<in>set demo_origin_requests. pfo_compression_is_desired r
                        \<and> pfo_data_type r \<in> {DT_NP_ARRAY, DT_STR, DT_BYTES}"
    by (simp add: demo_origin_requests_def)
  note t = origin_compression_defaults[of True demo_helpers demo_repo "[''d1'']" "''d1''"
      "''30:strings''" "''30''" DT_STR demo_origin_requests]
  from t rec have a: "FetchFindDataOrigin True demo_helpers demo_repo [''d1'']
     = \<lparr> frames = [DataOriginReply_frame
                      \<lparr> dor_location = REMOTE_SERVER, dor_data_type = DT_STR,
                        dor_digest = ''d1'', dor_uri = ''d1'', dor_compression = True,
                        dor_compression_opts = blosc_opts ''blosclz'' \<rparr>],
         ending = None, status = OK \<rparr>"
    by blast
  from t pre have "PushFindDataOrigin True demo_origin_requests
          = \<lparr> frames = map expected_push_reply demo_origin_requests, ending = None, status = OK \<rparr>"
    by blast
  then have b: "frames (PushFindDataOrigin True demo_origin_requests)
     = [\<lparr> pfr_digest = ''d1'', pfr_location = REMOTE_SERVER, pfr_uri = ''d1'',
          pfr_compression_expected = True,
          pfr_compression_opts_expected = blosc_opts ''zstd'' \<rparr>,
        \<lparr> pfr_digest = ''d2'', pfr_location = REMOTE_SERVER, pfr_uri = ''d2'',
          pfr_compression_expected = True,
          pfr_compression_opts_expected = blosc_opts ''blosclz'' \<rparr>]"
    by (simp add: demo_origin_requests_def expected_push_reply_def)
  from a b show ?thesis by simp
qed

section \<open>Properties of the arrayset layer\<close>

lemma txn_get_put: "txn_get (txn_put db k v) k' = (if k' = k then Some v else txn_get db k')"
  by (induction db) (auto simp: txn_get_def)

lemma keys_txn_put:
  "map fst (txn_put db k v) = (if k \<in> set (map fst db) then map fst db else map fst db @ [k])"
proof (induction db)
  case Nil
  show ?case by simp
next
  case (Cons a db)
  obtain k' v' where a: "a = (k', v')" by (cases a)
  show ?case
  proof (cases "k' = k")
    case True
    with a show ?thesis by simp
  next
    case False
    with a Cons.IH show ?thesis by auto
  qed
qed

lemma distinct_txn_put: "distinct (map fst db) \<Longrightarrow> distinct (map fst (txn_put db k v))"
  by (simp add: keys_txn_put)

lemma length_txn_put:
  "length (txn_put db k v) = (if k \<in> set (map fst db) then length db else Suc (length db))"
proof -
  have "length (txn_put db k v) = length (map fst (txn_put db k v))" by simp
  also have "\<dots> = (if k \<in> set (map fst db) then length db else Suc (length db))"
    by (simp only: keys_txn_put) simp
  finally show ?thesis .
qed

lemma one_entry:
  "distinct (map fst db) \<Longrightarrow> txn_get db k = Some v \<Longrightarrow> length (filter (\<lambda>kv. fst kv = k) db) = 1"
proof (induction db)
  case Nil
  then show ?case by (simp add: txn_get_def)
next
  case (Cons a db)
  show ?case
  proof (cases "fst a = k")
    case True
    with Cons.prems(1) have "k \<notin> fst ` set db" by auto
    then have "filter (\<lambda>kv. fst kv = k) db = []"
      by (auto simp: filter_empty_conv)
    with True show ?thesis by simp
  next
    case False
    with Cons.prems(2) have "txn_get db k = Some v"
      by (cases a) (auto simp: txn_get_def)
    with Cons.IH Cons.prems(1) False show ?thesis by simp
  qed
qed

lemma aset_set_ok:
  assumes "aset_set digest_of be_write st key v = (Inr d, st1)"
  shows "is_valid_key key"
    and "\<exists>arr. validate_value (aset_schema st) v = Inr arr \<and> d = digest_of arr"
    and "aset_schema st1 = aset_schema st"
    and "txn_get (hashes st1) d \<noteq> None"
    and "txn_get (samples st1) key = Some d"
    and "wf_arrayset st \<Longrightarrow> wf_arrayset st1"
  using assms
  by (auto simp: aset_set_def Let_def txn_get_put wf_arrayset_def distinct_txn_put
      split: if_splits sum.splits prod.splits)

text \<open>
  C7. In a well-formed arrayset state, once an array has been written under key
  \<open>k1\<close> with digest \<open>d\<close>, writing the same array again under any valid key
  \<open>k2\<close> (the same or another) yields the same digest \<open>d\<close>, leaves the hash index
  and the backend as they were (the backend's write is not called), the hash index
  holds exactly one entry for \<open>d\<close>, both keys map to \<open>d\<close>, and the number of
  samples grows by one only if \<open>k2\<close> is a new key: the keys stay pairwise different.
\<close>

theorem same_bytes_written_twice:
  assumes "wf_arrayset st"
    and "aset_set digest_of be_write st k1 v = (Inr d, st1)"
    and "is_valid_key k2"
  shows "aset_set digest_of be_write st1 k2 v
           = (Inr d, st1\<lparr> samples := txn_put (samples st1) k2 d \<rparr>)
       \<and> hashes (snd (aset_set digest_of be_write st1 k2 v)) = hashes st1
       \<and> backend (snd (aset_set digest_of be_write st1 k2 v)) = backend st1
       \<and> locator_entries (snd (aset_set digest_of be_write st1 k2 v)) d = 1
       \<and> txn_get (samples (snd (aset_set digest_of be_write st1 k2 v))) k1 = Some d
       \<and> txn_get (samples (snd (aset_set digest_of be_write st1 k2 v))) k2 = Some d
       \<and> distinct (aset_keys (snd (aset_set digest_of be_write st1 k2 v)))
       \<and> aset_len (snd (aset_set digest_of be_write st1 k2 v))
           = (if k2 \<in> set (aset_keys st1) then aset_len st1 else Suc (aset_len st1))"
proof -
  note ok = aset_set_ok[OF assms(2)]
  from ok(2) obtain arr where arr: "validate_value (aset_schema st) v = Inr arr" "d = digest_of arr"
    by blast
  have second: "aset_set digest_of be_write st1 k2 v
           = (Inr d, st1\<lparr> samples := txn_put (samples st1) k2 d \<rparr>)"
    using assms(3) arr ok(3) ok(4) by (simp add: aset_set_def Let_def)
  have wf1: "wf_arrayset st1" using ok(6) assms(1) by simp
  from ok(4) obtain loc where loc: "txn_get (hashes st1) d = Some loc" by blast
  have one: "length (filter (\<lambda>kv. fst kv = d) (hashes st1)) = 1"
    using one_entry[of "hashes st1" d loc] wf1 loc by (simp add: wf_arrayset_def)
  show ?thesis
    unfolding second
    using ok(5) wf1 one
    by (simp add: locator_entries_def txn_get_put aset_keys_def aset_len_def
        wf_arrayset_def distinct_txn_put length_txn_put)
qed

text \<open>
  C8. With \<^verbatim>\<open>variable_shape\<close> false, setting an array whose shape or dtype differs
  from the schema's fails with \<^verbatim>\<open>ValueError\<close>; with \<^verbatim>\<open>variable_shape\<close> true, setting
  an array whose rank differs from the schema's or one of whose dimensions exceeds the
  schema's maximum on that axis fails with \<^verbatim>\<open>ValueError\<close>. In both cases the state
  returned is the state given.
\<close>

theorem shape_validation_on_set:
  "(\<not> variable_shape (aset_schema st)
      \<and> (arr_shape arr \<noteq> schema_shape (aset_schema st) \<or> arr_dtype arr \<noteq> schema_dtype (aset_schema st))
      \<longrightarrow> aset_set digest_of be_write st key (NdArray arr) = (Inl ValueError, st))
   \<and> (variable_shape (aset_schema st)
      \<and> (length (arr_shape arr) \<noteq> length (schema_shape (aset_schema st))
          \<or> (\<exists>i < length (arr_shape arr). schema_shape (aset_schema st) ! i < arr_shape arr ! i))
      \<longrightarrow> aset_set digest_of be_write st key (NdArray arr) = (Inl ValueError, st))"
proof (intro conjI impI)
  assume "\<not> variable_shape (aset_schema st)
      \<and> (arr_shape arr \<noteq> schema_shape (aset_schema st) \<or> arr_dtype arr \<noteq> schema_dtype (aset_schema st))"
  then have "validate_value (aset_schema st) (NdArray arr) = Inl ValueError"
    by (auto simp: validate_value_def)
  then show "aset_set digest_of be_write st key (NdArray arr) = (Inl ValueError, st)"
    by (simp add: aset_set_def)
next
  assume a: "variable_shape (aset_schema st)
      \<and> (length (arr_shape arr) \<noteq> length (schema_shape (aset_schema st))
          \<or> (\<exists>i < length (arr_shape arr). schema_shape (aset_schema st) ! i < arr_shape arr ! i))"
  have ex: "list_ex (\<lambda>dm. snd dm < fst dm) (zip (arr_shape arr) (schema_shape (aset_schema st)))"
    if len: "length (arr_shape arr) = length (schema_shape (aset_schema st))"
      and i: "i < length (arr_shape arr)" "schema_shape (aset_schema st) ! i < arr_shape arr ! i" for i
  proof -
    have "zip (arr_shape arr) (schema_shape (aset_schema st)) ! i
        \<in> set (zip (arr_shape arr) (schema_shape (aset_schema st)))"
      using len i(1) by (intro nth_mem) simp
    moreover have "zip (arr_shape arr) (schema_shape (aset_schema st)) ! i
        = (arr_shape arr ! i, schema_shape (aset_schema st) ! i)"
      using len i(1) by simp
    ultimately have "(arr_shape arr ! i, schema_shape (aset_schema st) ! i)
        \<in> set (zip (arr_shape arr) (schema_shape (aset_schema st)))"
      by simp
    with i(2) show ?thesis unfolding list_ex_iff by force
  qed
  from a ex have "validate_value (aset_schema st) (NdArray arr) = Inl ValueError"
    by (auto simp: validate_value_def)
  then show "aset_set digest_of be_write st key (NdArray arr) = (Inl ValueError, st)"
    by (simp add: aset_set_def)
qed

text \<open>
  C9. Setting a value under a float key, a negative integer key or a string key longer
  than 64 characters fails with \<^verbatim>\<open>ValueError\<close>, and the state returned is the state
  given: the keys and the length of the arrayset are what they were.
\<close>

theorem key_validation_on_set:
  "((\<exists>m e. key = KFloat m e) \<or> (\<exists>n. key = KInt n \<and> n < 0) \<or> (\<exists>str. key = KStr str \<and> 64 < length str))
   \<longrightarrow> aset_set digest_of be_write st key v = (Inl ValueError, st)
       \<and> aset_keys (snd (aset_set digest_of be_write st key v)) = aset_keys st
       \<and> aset_len (snd (aset_set digest_of be_write st key v)) = aset_len st"
proof
  assume "(\<exists>m e. key = KFloat m e) \<or> (\<exists>n. key = KInt n \<and> n < 0) \<or> (\<exists>str. key = KStr str \<and> 64 < length str)"
  then have "\<not> is_valid_key key" by (auto simp: is_valid_key_def)
  then have "aset_set digest_of be_write st key v = (Inl ValueError, st)"
    by (simp add: aset_set_def)
  then show "aset_set digest_of be_write st key v = (Inl ValueError, st)
       \<and> aset_keys (snd (aset_set digest_of be_write st key v)) = aset_keys st
       \<and> aset_len (snd (aset_set digest_of be_write st key v)) = aset_len st"
    by simp
qed

lemma valid_key_1: "is_valid_key (KStr ''1'')" and valid_key_2: "is_valid_key (KStr ''2'')"
  by (simp_all add: is_valid_key_def key_alphabet_def)

lemma demo_first_write:
  "aset_set demo_digest_of demo_be_write (demo_aset False) (KStr ''1'')
       (NdArray (demo_array ''float32'' [2, 3]))
     = (Inr ''d:float32:zeros'', demo_aset_one)"
  by (simp add: aset_set_def valid_key_1 validate_value_def demo_aset_def demo_array_def
      demo_digest_of_def demo_be_write_def demo_aset_one_def txn_get_def Let_def)

theorem same_bytes_written_twice_witness:
  "aset_set demo_digest_of demo_be_write demo_aset_one (KStr ''2'')
       (NdArray (demo_array ''float32'' [2, 3]))
     = (Inr ''d:float32:zeros'',
        demo_aset_one\<lparr> samples := [(KStr ''1'', ''d:float32:zeros''),
                                   (KStr ''2'', ''d:float32:zeros'')] \<rparr>)
   \<and> locator_entries
        (snd (aset_set demo_digest_of demo_be_write demo_aset_one (KStr ''2'')
                (NdArray (demo_array ''float32'' [2, 3])))) ''d:float32:zeros'' = 1
   \<and> aset_len
        (snd (aset_set demo_digest_of demo_be_write demo_aset_one (KStr ''2'')
                (NdArray (demo_array ''float32'' [2, 3])))) = 2
   \<and> aset_len
        (snd (aset_set demo_digest_of demo_be_write demo_aset_one (KStr ''1'')
                (NdArray (demo_array ''float32'' [2, 3])))) = 1"
proof -
  have wf: "wf_arrayset (demo_aset False)"
    by (simp add: wf_arrayset_def demo_aset_def)
  have s1: "txn_put (samples demo_aset_one) (KStr ''2'') ''d:float32:zeros''
      = [(KStr ''1'', ''d:float32:zeros''), (KStr ''2'', ''d:float32:zeros'')]"
    by (simp add: demo_aset_one_def)
  have k2: "KStr ''2'' \<notin> set (aset_keys demo_aset_one)"
    and k1: "KStr ''1'' \<in> set (aset_keys demo_aset_one)"
    and l1: "aset_len demo_aset_one = 1"
    by (simp_all add: aset_keys_def aset_len_def demo_aset_one_def)
  note t2 = same_bytes_written_twice[OF wf demo_first_write valid_key_2]
  note t1 = same_bytes_written_twice[OF wf demo_first_write valid_key_1]
  from t2 have a: "aset_set demo_digest_of demo_be_write demo_aset_one (KStr ''2'')
       (NdArray (demo_array ''float32'' [2, 3]))
     = (Inr ''d:float32:zeros'',
        demo_aset_one\<lparr> samples := [(KStr ''1'', ''d:float32:zeros''),
                                   (KStr ''2'', ''d:float32:zeros'')] \<rparr>)"
    by (simp only: s1)
  from t2 have b: "locator_entries
        (snd (aset_set demo_digest_of demo_be_write demo_aset_one (KStr ''2'')
                (NdArray (demo_array ''float32'' [2, 3])))) ''d:float32:zeros'' = 1"
    by blast
  from t2 have "aset_len
        (snd (aset_set demo_digest_of demo_be_write demo_aset_one (KStr ''2'')
                (NdArray (demo_array ''float32'' [2, 3]))))
      = (if KStr ''2'' \<in> set (aset_keys demo_aset_one) then aset_len demo_aset_one
         else Suc (aset_len demo_aset_one))"
    by blast
  with k2 l1 have c: "aset_len
        (snd (aset_set demo_digest_of demo_be_write demo_aset_one (KStr ''2'')
                (NdArray (demo_array ''float32'' [2, 3])))) = 2"
    by simp
  from t1 have "aset_len
        (snd (aset_set demo_digest_of demo_be_write demo_aset_one (KStr ''1'')
                (NdArray (demo_array ''float32'' [2, 3]))))
      = (if KStr ''1'' \<in> set (aset_keys demo_aset_one) then aset_len demo_aset_one
         else Suc (aset_len demo_aset_one))"
    by blast
  with k1 l1 have d: "aset_len
        (snd (aset_set demo_digest_of demo_be_write demo_aset_one (KStr ''1'')
                (NdArray (demo_array ''float32'' [2, 3])))) = 1"
    by simp
  from a b c d show ?thesis by blast
qed

theorem shape_validation_on_set_witness:
  "aset_set demo_digest_of demo_be_write (demo_aset False) (KStr ''2'')
       (NdArray (demo_array ''float64'' [2, 3])) = (Inl ValueError, demo_aset False)
   \<and> aset_set demo_digest_of demo_be_write (demo_aset False) (KStr ''3'')
       (NdArray (demo_array ''float32'' [3, 4])) = (Inl ValueError, demo_aset False)
   \<and> aset_set demo_digest_of demo_be_write (demo_aset True) (KInt 1)
       (NdArray (demo_array ''float32'' [2, 3, 2])) = (Inl ValueError, demo_aset True)
   \<and> aset_set demo_digest_of demo_be_write (demo_aset True) (KInt 1)
       (NdArray (demo_array ''float32'' [2, 4])) = (Inl ValueError, demo_aset True)"
proof -
  have f: "\<not> variable_shape (aset_schema (demo_aset False))"
    and v: "variable_shape (aset_schema (demo_aset True))"
    and sh: "schema_shape (aset_schema (demo_aset b)) = [2, 3]"
    and dt: "schema_dtype (aset_schema (demo_aset b)) = ''float32''" for b
    by (simp_all add: demo_aset_def)
  have a: "aset_set demo_digest_of demo_be_write (demo_aset False) (KStr ''2'')
       (NdArray (demo_array ''float64'' [2, 3])) = (Inl ValueError, demo_aset False)"
    using shape_validation_on_set[of "demo_aset False" "demo_array ''float64'' [2, 3]"
        demo_digest_of demo_be_write "KStr ''2''"] f
    by (simp add: dt demo_array_def)
  have b: "aset_set demo_digest_of demo_be_write (demo_aset False) (KStr ''3'')
       (NdArray (demo_array ''float32'' [3, 4])) = (Inl ValueError, demo_aset False)"
    using shape_validation_on_set[of "demo_aset False" "demo_array ''float32'' [3, 4]"
        demo_digest_of demo_be_write "KStr ''3''"] f
    by (simp add: sh demo_array_def)
  have c: "aset_set demo_digest_of demo_be_write (demo_aset True) (KInt 1)
       (NdArray (demo_array ''float32'' [2, 3, 2])) = (Inl ValueError, demo_aset True)"
    using shape_validation_on_set[of "demo_aset True" "demo_array ''float32'' [2, 3, 2]"
        demo_digest_of demo_be_write "KInt 1"] v
    by (simp add: sh demo_array_def)
  have "\<exists>i < length (arr_shape (demo_array ''float32'' [2, 4])).
          schema_shape (aset_schema (demo_aset True)) ! i < arr_shape (demo_array ''float32'' [2, 4]) ! i"
    by (rule exI[of _ 1]) (simp add: sh demo_array_def)
  with v have d: "aset_set demo_digest_of demo_be_write (demo_aset True) (KInt 1)
       (NdArray (demo_array ''float32'' [2, 4])) = (Inl ValueError, demo_aset True)"
    using shape_validation_on_set[of "demo_aset True" "demo_array ''float32'' [2, 4]"
        demo_digest_of demo_be_write "KInt 1"]
    by blast
  from a b c d show ?thesis by blast
qed

theorem key_validation_on_set_witness:
  "aset_set demo_digest_of demo_be_write demo_aset_one (KFloat 4728779608739021 (- 51))
       (NdArray (demo_array ''float32'' [2, 3])) = (Inl ValueError, demo_aset_one)
   \<and> aset_set demo_digest_of demo_be_write demo_aset_one (KFloat 0 0)
       (NdArray (demo_array ''float32'' [2, 3])) = (Inl ValueError, demo_aset_one)
   \<and> aset_set demo_digest_of demo_be_write demo_aset_one (KInt (- 1))
       (NdArray (demo_array ''float32'' [2, 3])) = (Inl ValueError, demo_aset_one)
   \<and> aset_set demo_digest_of demo_be_write demo_aset_one
       (KStr ''VeryLongNameIsInvalidOver64CharactersNotAllowedVeryLongNameIsInva'')
       (NdArray (demo_array ''float32'' [2, 3])) = (Inl ValueError, demo_aset_one)
   \<and> aset_len (snd (aset_set demo_digest_of demo_be_write demo_aset_one (KInt (- 1))
       (NdArray (demo_array ''float32'' [2, 3])))) = 1"
proof -
  let ?v = "NdArray (demo_array ''float32'' [2, 3])"
  have l1: "aset_len demo_aset_one = 1"
    by (simp add: aset_len_def demo_aset_one_def)
  have a: "aset_set demo_digest_of demo_be_write demo_aset_one (KFloat 4728779608739021 (- 51)) ?v
      = (Inl ValueError, demo_aset_one)"
    using key_validation_on_set[of "KFloat 4728779608739021 (- 51)" demo_digest_of demo_be_write
        demo_aset_one ?v]
    by simp
  have b: "aset_set demo_digest_of demo_be_write demo_aset_one (KFloat 0 0) ?v
      = (Inl ValueError, demo_aset_one)"
    using key_validation_on_set[of "KFloat 0 0" demo_digest_of demo_be_write demo_aset_one ?v]
    by simp
  have c: "aset_set demo_digest_of demo_be_write demo_aset_one (KInt (- 1)) ?v
      = (Inl ValueError, demo_aset_one)
     \<and> aset_len (snd (aset_set demo_digest_of demo_be_write demo_aset_one (KInt (- 1)) ?v))
         = aset_len demo_aset_one"
    using key_validation_on_set[of "KInt (- 1)" demo_digest_of demo_be_write demo_aset_one ?v]
    by simp
  have d: "aset_set demo_digest_of demo_be_write demo_aset_one
       (KStr ''VeryLongNameIsInvalidOver64CharactersNotAllowedVeryLongNameIsInva'') ?v
      = (Inl ValueError, demo_aset_one)"
    using key_validation_on_set[of
        "KStr ''VeryLongNameIsInvalidOver64CharactersNotAllowedVeryLongNameIsInva''"
        demo_digest_of demo_be_write demo_aset_one ?v]
    by simp
  from a b c d l1 show ?thesis by simp
qed

end
